theory Spec2Isabelle
  imports Main "HOL-Library.AList"
begin

section \<open>Data model\<close>

text \<open>
  A configuration entity is an arbitrary JSON document that carries its identifier in
  the field \<^verbatim>\<open>_id\<close> (\<^verbatim>\<open>IdObjectSkeletonInterface\<close>). The identifier is the
  only field the operations of \<^verbatim>\<open>IdmConfigOps.ts\<close> read; it is the field \<open>ident\<close> here,
  since an Isabelle name cannot start with an underscore.
\<close>

datatype json =
    JNull
  | JBool bool
  | JNumber int
  | JString string
  | JArray "json list"
  | JObject "(string \<times> json) list"

record IdObjectSkeleton =
  ident :: string
  content :: "(string \<times> json) list"

record IdmConfigStub = IdObjectSkeleton +
  pid :: string
  factoryPid :: "string option"

record ExportMetaData =
  origin :: string
  exportedBy :: string
  exportDate :: string
  exportTool :: string
  exportToolVersion :: string

text \<open>
  \<^verbatim>\<open>ConfigEntityExportInterface.idm\<close> is a JavaScript object used as a dictionary. It
  is an association list in iteration order: \<open>Object_keys\<close> lists the keys,
  \<open>map_of\<close> reads a key, and the assignment \<^verbatim>\<open>idm[k] = v\<close> is \<open>AList.update\<close>
  (replace in place, or append a new key). The ids of configuration entities are
  path-like names; a key that is a canonical array index, which JavaScript would list
  before the others, is not among them.
\<close>

record ConfigEntityExportInterface =
  meta :: "ExportMetaData option"
  idm :: "(string \<times> IdObjectSkeleton) list"

record ConfigEntityImportOptions =
  validate :: bool

definition Object_keys :: "(string \<times> 'a) list \<Rightarrow> string list" where
  "Object_keys r = map fst r"

section \<open>Errors, promises and try/catch\<close>

text \<open>
  Modelled from the spec: the class \<^verbatim>\<open>FrodoError\<close> (\<^verbatim>\<open>ops/FrodoError\<close> is not among
  the sources) and the rejection of an HTTP call (the client library is not either).
  They are the structured failure of the specification, which carries an HTTP status
  code, an HTTP error code, message and reason, and the failures it wraps.

  \<open>AxiosError code status message reason\<close> is what a function of \<^verbatim>\<open>IdmConfigApi.ts\<close>
  rejects with: the client's error code, and the status, message and reason of the HTTP
  response when there is one. \<open>FrodoError message originalErrors\<close> is
  \<^verbatim>\<open>new FrodoError(message, originalErrors)\<close>. The class keeps its second argument as
  the array of its original errors: empty when the argument is absent, of one element
  when it is one error, and the array itself when it is an array. So
  \<^verbatim>\<open>new FrodoError(m, e)\<close> and \<^verbatim>\<open>new FrodoError(m, [e])\<close> are the same failure. The HTTP
  fields of a \<^verbatim>\<open>FrodoError\<close> are those of the first failure it wraps, when that is the
  rejection of an HTTP call. \<open>TypeError message\<close> is the error the runtime throws when a
  property of \<^verbatim>\<open>undefined\<close> is read.
\<close>

datatype error =
    AxiosError "string option" "int option" "string option" "string option"
  | TypeError string
  | FrodoError string "error list"

fun firstOriginal :: "error list \<Rightarrow> error option" where
  "firstOriginal [] = None"
| "firstOriginal (e # es) = Some e"

fun httpStatus :: "error \<Rightarrow> int option" where
  "httpStatus (FrodoError m os) =
     (case firstOriginal os of Some (AxiosError c s msg r) \<Rightarrow> s | _ \<Rightarrow> None)"
| "httpStatus e = None"

fun httpCode :: "error \<Rightarrow> string option" where
  "httpCode (FrodoError m os) =
     (case firstOriginal os of Some (AxiosError c s msg r) \<Rightarrow> c | _ \<Rightarrow> None)"
| "httpCode e = None"

fun httpMessage :: "error \<Rightarrow> string option" where
  "httpMessage (FrodoError m os) =
     (case firstOriginal os of Some (AxiosError c s msg r) \<Rightarrow> msg | _ \<Rightarrow> None)"
| "httpMessage e = None"

fun httpErrorReason :: "error \<Rightarrow> string option" where
  "httpErrorReason (FrodoError m os) =
     (case firstOriginal os of Some (AxiosError c s msg r) \<Rightarrow> r | _ \<Rightarrow> None)"
| "httpErrorReason e = None"

text \<open>
  A promise is observed once it has settled. A block of statements completes normally
  with a value or throws. \<open>await\<close> turns a rejection into a throw, \<open>try_catch\<close> runs the
  handler on a throw of its block, and \<open>async\<close> is the promise an \<^verbatim>\<open>async\<close> function
  hands to its caller: the body returns a value or a promise (which the result adopts),
  and a throw of the body rejects it.
\<close>

datatype 'a promise = Resolved 'a | Rejected error

datatype 'a completion = Normal 'a | Throw error

fun await :: "'a promise \<Rightarrow> 'a completion" where
  "await (Resolved v) = Normal v"
| "await (Rejected e) = Throw e"

fun and_then :: "'a completion \<Rightarrow> ('a \<Rightarrow> 'b completion) \<Rightarrow> 'b completion" where
  "and_then (Normal v) f = f v"
| "and_then (Throw e) f = Throw e"

fun try_catch :: "'a completion \<Rightarrow> (error \<Rightarrow> 'a completion) \<Rightarrow> 'a completion" where
  "try_catch (Normal v) h = Normal v"
| "try_catch (Throw e) h = h e"

definition return_value :: "'a \<Rightarrow> 'a promise completion" where
  "return_value v = Normal (Resolved v)"

fun async :: "'a promise completion \<Rightarrow> 'a promise" where
  "async (Normal p) = p"
| "async (Throw e) = Rejected e"

section \<open>The environment of the operations\<close>

text \<open>
  What the operations write to the console, and the write requests they send to the
  store together with the store's answer. The texts of the messages are template
  literals; a message keeps the template and the values of its holes.
\<close>

datatype message =
    Exporting_config_entities
  | Exporting_config_entity string
  | Response_data error
  | Error_getting_config_entity string error
  | Exported_config_entities nat

datatype event =
    CreateProgressIndicator nat message
  | UpdateProgressIndicator message
  | StopProgressIndicator message string
  | PrintMessage message string
  | PrintError error
  | DebugMessage string
  | Put string IdObjectSkeleton "IdObjectSkeleton promise"
  | Delete string "IdObjectSkeleton promise"

text \<open>
  The functions of \<^verbatim>\<open>IdmConfigApi.ts\<close> send one HTTP request each; the remote store
  behind them is outside the repository. The store is a state \<open>'w\<close>: a read is a
  function of the state, a write also returns the next state. The record holds, beside
  the API, what the operations take from modules that are not among the sources:
  \<^verbatim>\<open>state.getDeploymentType()\<close>, \<^verbatim>\<open>areScriptHooksValid\<close>, \<^verbatim>\<open>getMetadata\<close>, and
  \<^verbatim>\<open>printError\<close> as \<^verbatim>\<open>exportConfigEntities\<close> calls it: with the error alone and without
  the state that every other call of the console is given. Whether that call returns or
  throws is the console's matter, so it is a function to a completion.
\<close>

record 'w env =
  api_getConfigStubs :: "'w \<Rightarrow> IdmConfigStub list promise"
  api_getConfigEntities :: "'w \<Rightarrow> IdObjectSkeleton list promise"
  api_getConfigEntitiesByType :: "string \<Rightarrow> 'w \<Rightarrow> IdObjectSkeleton list promise"
  api_getConfigEntity :: "string \<Rightarrow> 'w \<Rightarrow> IdObjectSkeleton promise"
  api_putConfigEntity ::
    "string \<Rightarrow> IdObjectSkeleton \<Rightarrow> bool \<Rightarrow> 'w \<Rightarrow> IdObjectSkeleton promise \<times> 'w"
  api_deleteConfigEntity :: "string \<Rightarrow> 'w \<Rightarrow> IdObjectSkeleton promise \<times> 'w"
  getDeploymentType :: string
  areScriptHooksValid :: "IdObjectSkeleton \<Rightarrow> bool"
  getMetadata :: ExportMetaData
  printError :: "error \<Rightarrow> unit completion"

text \<open>
  Modelled from the spec: \<^verbatim>\<open>Constants.CLOUD_DEPLOYMENT_TYPE_KEY\<close> (\<^verbatim>\<open>shared/Constants\<close>
  is not among the sources), the deployment type of the cloud offering.
\<close>

definition CLOUD_DEPLOYMENT_TYPE_KEY :: string where
  "CLOUD_DEPLOYMENT_TYPE_KEY = ''cloud''"

section \<open>Reading\<close>

definition createConfigEntityExportTemplate :: "'w env \<Rightarrow> ConfigEntityExportInterface" where
  "createConfigEntityExportTemplate env = \<lparr>meta = Some (getMetadata env), idm = []\<rparr>"

definition readConfigEntityStubs :: "'w env \<Rightarrow> 'w \<Rightarrow> IdmConfigStub list promise" where
  "readConfigEntityStubs env w =
     async (try_catch
       (and_then (await (api_getConfigStubs env w)) (\<lambda>configurations.
          return_value configurations))
       (\<lambda>error. Throw (FrodoError ''Error reading config entity stubs'' [error])))"

definition readConfigEntities :: "'w env \<Rightarrow> 'w \<Rightarrow> IdObjectSkeleton list promise" where
  "readConfigEntities env w =
     async (try_catch
       (and_then (await (api_getConfigEntities env w)) (\<lambda>result. return_value result))
       (\<lambda>error. Throw (FrodoError ''Error reading config entities'' [error])))"

definition readConfigEntitiesByType ::
    "'w env \<Rightarrow> string \<Rightarrow> 'w \<Rightarrow> IdObjectSkeleton list promise" where
  "readConfigEntitiesByType env type w =
     async (try_catch
       (and_then (await (api_getConfigEntitiesByType env type w)) (\<lambda>result.
          return_value result))
       (\<lambda>error. Throw (FrodoError ''Error reading config entities by type'' [error])))"

definition readConfigEntity :: "'w env \<Rightarrow> string \<Rightarrow> 'w \<Rightarrow> IdObjectSkeleton promise" where
  "readConfigEntity env entityId w =
     async (try_catch
       (and_then (await (api_getConfigEntity env entityId w)) (\<lambda>result. return_value result))
       (\<lambda>error. Throw (FrodoError (''Error reading config entity '' @ entityId) [error])))"

section \<open>Export\<close>

definition AIC_PROTECTED_ENTITIES :: "string list" where
  "AIC_PROTECTED_ENTITIES =
     [''emailTemplate/frEmailUpdated'',
      ''emailTemplate/frForgotUsername'',
      ''emailTemplate/frOnboarding'',
      ''emailTemplate/frPasswordUpdated'',
      ''emailTemplate/frProfileUpdated'',
      ''emailTemplate/frResetPassword'',
      ''emailTemplate/frUsernameUpdated'']"

definition IDM_UNAVAILABLE_ENTITIES :: "string list" where
  "IDM_UNAVAILABLE_ENTITIES =
     [''script'',
      ''notificationFactory'',
      ''apiVersion'',
      ''metrics'',
      ''repo.init'',
      ''endpoint/validateQueryFilter'',
      ''endpoint/oauthproxy'',
      ''external.rest'',
      ''scheduler'',
      ''org.apache.felix.fileinstall/openidm'',
      ''cluster'',
      ''endpoint/mappingDetails'',
      ''fieldPolicy/teammember'']"

text \<open>
  The handler that \<^verbatim>\<open>exportConfigEntities\<close> attaches with \<^verbatim>\<open>.catch\<close> to the read of one
  entity. It prints two messages of type \<^verbatim>\<open>error\<close> unless the failure is one of the
  three known ones, and returns nothing: the promise resolves to \<^verbatim>\<open>undefined\<close>.
\<close>

definition readConfigEntityError_handler :: "string \<Rightarrow> error \<Rightarrow> event list" where
  "readConfigEntityError_handler entityId error =
     (if \<not> (httpStatus error = Some 403 \<and>
              httpMessage error = Some ''This operation is not available in ForgeRock Identity Cloud.'') \<and>
         \<not> (entityId \<in> set IDM_UNAVAILABLE_ENTITIES \<and>
              httpStatus error = Some 404 \<and>
              httpErrorReason error = Some ''Not Found'') \<and>
         \<not> (httpStatus error = Some 404 \<and>
              httpMessage error =
                Some ''No configuration exists for id org.apache.felix.fileinstall/openidm'')
      then [PrintMessage (Response_data error) ''error'',
            PrintMessage (Error_getting_config_entity entityId error) ''error'']
      else [])"

definition entityPromise ::
    "'w env \<Rightarrow> 'w \<Rightarrow> IdObjectSkeleton \<Rightarrow> IdObjectSkeleton option \<times> event list" where
  "entityPromise env w configEntity =
     (case readConfigEntity env (ident configEntity) w of
        Resolved result \<Rightarrow> (Some result, [])
      | Rejected readConfigEntityError \<Rightarrow>
          (None, readConfigEntityError_handler (ident configEntity) readConfigEntityError))"

fun insert_results ::
    "IdObjectSkeleton option list \<Rightarrow> ConfigEntityExportInterface \<Rightarrow> ConfigEntityExportInterface" where
  "insert_results [] exportData = exportData"
| "insert_results (None # results) exportData = insert_results results exportData"
| "insert_results (Some result # results) exportData =
     insert_results results
       (exportData\<lparr>idm := AList.update (ident result) result (idm exportData)\<rparr>)"

text \<open>
  \<^verbatim>\<open>exportConfigEntities\<close> returns the promise of a bundle. The reads of the entities
  run concurrently and only read the store; their handlers' messages are listed in the
  order of the working set. Every promise the loop collects has its handler, so
  \<^verbatim>\<open>Promise.all\<close> resolves; the functions of the console that are given the state and
  \<^verbatim>\<open>getMetadata\<close> do not throw. What the outer \<^verbatim>\<open>catch\<close> can catch is then the failure
  of the listing. The clause calls \<^verbatim>\<open>printError(error)\<close> and nothing else: if the call
  returns, the function ends without a \<^verbatim>\<open>return\<close> and the promise resolves to
  \<^verbatim>\<open>undefined\<close>, which is \<open>None\<close>; if the call throws, the promise rejects with what it
  threw. The event \<open>PrintError\<close> records the call.
\<close>

definition exportConfigEntities ::
    "'w env \<Rightarrow> 'w \<Rightarrow> ConfigEntityExportInterface option promise \<times> event list" where
  "exportConfigEntities env w =
     (case await (readConfigEntities env w) of
        Throw error \<Rightarrow>
          (async (and_then (printError env error) (\<lambda>u. return_value None)),
           [PrintError error])
      | Normal configurations \<Rightarrow>
          (let entityPromises = map (entityPromise env w) configurations;
               results = map fst entityPromises;
               exportData = insert_results results (createConfigEntityExportTemplate env)
           in (Resolved (Some exportData),
               [CreateProgressIndicator (length configurations) Exporting_config_entities] @
               map (\<lambda>configEntity.
                 UpdateProgressIndicator (Exporting_config_entity (ident configEntity)))
                 configurations @
               concat (map snd entityPromises) @
               [StopProgressIndicator (Exported_config_entities (length configurations))
                  ''success''])))"

section \<open>Import\<close>

definition updateConfigEntity ::
    "'w env \<Rightarrow> string \<Rightarrow> IdObjectSkeleton \<Rightarrow> bool \<Rightarrow> 'w \<Rightarrow>
       IdObjectSkeleton promise \<times> event list \<times> 'w" where
  "updateConfigEntity env entityId entityData wait w =
     (let (p, w') = api_putConfigEntity env entityId entityData wait w
      in (async (try_catch
            (and_then (await p) (\<lambda>result. return_value result))
            (\<lambda>error. Throw
               (FrodoError (''Error updating config entity '' @ entityId) [error]))),
          [Put entityId entityData p], w'))"

text \<open>
  The variables of a bulk operation while its loop runs: the array of results
  (\<^verbatim>\<open>response\<close> in \<^verbatim>\<open>importConfigEntities\<close>, \<^verbatim>\<open>result\<close> in the delete operations), the
  array \<^verbatim>\<open>errors\<close>, what has been written and requested so far, and the store.
\<close>

record 'w batch =
  response :: "IdObjectSkeleton list"
  errors :: "error list"
  trace :: "event list"
  world :: 'w

definition invalid_script_hook :: "string \<Rightarrow> error" where
  "invalid_script_hook entityId =
     FrodoError (''Invalid script hook in the config object '' @ [CHR 0x27] @ entityId @ [CHR 0x27])
       []"

text \<open>
  One round of the loop of \<^verbatim>\<open>importConfigEntities\<close>. The outer \<^verbatim>\<open>try\<close> block completes
  or throws after it has changed the variables; the outer \<^verbatim>\<open>catch\<close> appends what was
  thrown to \<^verbatim>\<open>errors\<close>.
\<close>

definition importConfigEntities_body ::
    "'w env \<Rightarrow> ConfigEntityExportInterface \<Rightarrow> ConfigEntityImportOptions \<Rightarrow> string \<Rightarrow>
       'w batch \<Rightarrow> 'w batch" where
  "importConfigEntities_body env importData options entityId b =
     (let b1 = b\<lparr>trace := trace b @
                 [DebugMessage (''IdmConfigOps.importConfigEntities: '' @ entityId)]\<rparr>;
          entityData = the (map_of (idm importData) entityId);
          (tried, b') =
            (if validate options \<and> \<not> areScriptHooksValid env entityData
             then (Throw (invalid_script_hook entityId), b1)
             else
               (let (p, requests, w') =
                      updateConfigEntity env entityId entityData False (world b1);
                    b2 = b1\<lparr>trace := trace b1 @ requests, world := w'\<rparr>
                in case await p of
                     Normal result \<Rightarrow> (Normal (), b2\<lparr>response := response b2 @ [result]\<rparr>)
                   | Throw error \<Rightarrow>
                       (if \<not> (getDeploymentType env = CLOUD_DEPLOYMENT_TYPE_KEY \<and>
                                entityId \<in> set AIC_PROTECTED_ENTITIES \<and>
                                httpStatus error = Some 403 \<and>
                                httpCode error = Some ''ERR_BAD_REQUEST'')
                        then (Throw error, b2)
                        else (Normal (), b2))))
      in case tried of
           Normal u \<Rightarrow> b'
         | Throw error \<Rightarrow> b'\<lparr>errors := errors b' @ [error]\<rparr>)"

fun importConfigEntities_loop ::
    "'w env \<Rightarrow> ConfigEntityExportInterface \<Rightarrow> ConfigEntityImportOptions \<Rightarrow> string list \<Rightarrow>
       'w batch \<Rightarrow> 'w batch" where
  "importConfigEntities_loop env importData options [] b = b"
| "importConfigEntities_loop env importData options (entityId # entityIds) b =
     importConfigEntities_loop env importData options entityIds
       (importConfigEntities_body env importData options entityId b)"

definition importConfigEntities ::
    "'w env \<Rightarrow> ConfigEntityExportInterface \<Rightarrow> ConfigEntityImportOptions \<Rightarrow> 'w \<Rightarrow>
       IdObjectSkeleton list promise \<times> event list \<times> 'w" where
  "importConfigEntities env importData options w =
     (let b = importConfigEntities_loop env importData options (Object_keys (idm importData))
                \<lparr>response = [], errors = [],
                 trace = [DebugMessage ''IdmConfigOps.importConfigEntities: start''],
                 world = w\<rparr>
      in if length (errors b) > 0
         then (Rejected (FrodoError ''Error importing config entities'' (errors b)),
               trace b, world b)
         else (Resolved (response b),
               trace b @ [DebugMessage ''IdmConfigOps.importConfigEntities: end''], world b))"

section \<open>Delete\<close>

text \<open>
  One round of the loop of \<^verbatim>\<open>deleteConfigEntities\<close> and of
  \<^verbatim>\<open>deleteConfigEntitiesByType\<close>, which differ in the name they write to the debug log.
  The delete is the function of the API itself, so what is caught is what the API
  rejected with.
\<close>

definition delete_body :: "'w env \<Rightarrow> string \<Rightarrow> string \<Rightarrow> 'w batch \<Rightarrow> 'w batch" where
  "delete_body env name entityId b =
     (let b1 = b\<lparr>trace := trace b @
                 [DebugMessage (''IdmConfigOps.'' @ name @ '': '' @ [CHR 0x27] @ entityId @ [CHR 0x27])]\<rparr>;
          (p, w') = api_deleteConfigEntity env entityId (world b1);
          b2 = b1\<lparr>trace := trace b1 @ [Delete entityId p], world := w'\<rparr>
      in case await p of
           Normal deleted \<Rightarrow> b2\<lparr>response := response b2 @ [deleted]\<rparr>
         | Throw error \<Rightarrow> b2\<lparr>errors := errors b2 @ [error]\<rparr>)"

fun delete_loop :: "'w env \<Rightarrow> string \<Rightarrow> string list \<Rightarrow> 'w batch \<Rightarrow> 'w batch" where
  "delete_loop env name [] b = b"
| "delete_loop env name (entityId # entityIds) b =
     delete_loop env name entityIds (delete_body env name entityId b)"

definition deleteConfigEntities ::
    "'w env \<Rightarrow> 'w \<Rightarrow> IdObjectSkeleton list promise \<times> event list \<times> 'w" where
  "deleteConfigEntities env w =
     (let b0 = \<lparr>response = [], errors = [],
                trace = [DebugMessage ''IdmConfigOps.deleteConfigEntities: start''],
                world = w\<rparr>;
          b = (case await (readConfigEntityStubs env w) of
                 Normal configEntityStubs \<Rightarrow>
                   delete_loop env ''deleteConfigEntities'' (map ident configEntityStubs) b0
               | Throw error \<Rightarrow> b0\<lparr>errors := errors b0 @ [error]\<rparr>)
      in if length (errors b) > 0
         then (Rejected (FrodoError ''Error deleting config entities'' (errors b)),
               trace b, world b)
         else (Resolved (response b),
               trace b @ [DebugMessage ''IdmConfigOps.deleteConfigEntities: end''], world b))"

text \<open>
  In \<^verbatim>\<open>deleteConfigEntitiesByType\<close> the listing, the loop, the \<^verbatim>\<open>throw\<close> of the collected
  errors and the \<^verbatim>\<open>return\<close> are all inside one \<^verbatim>\<open>try\<close> block; its \<^verbatim>\<open>catch\<close> throws again
  what it caught when \<^verbatim>\<open>errors\<close> is not empty, and wraps it otherwise.
\<close>

definition deleteConfigEntitiesByType ::
    "'w env \<Rightarrow> string \<Rightarrow> 'w \<Rightarrow> IdObjectSkeleton list promise \<times> event list \<times> 'w" where
  "deleteConfigEntitiesByType env type w =
     (let b0 = \<lparr>response = [], errors = [],
                trace = [DebugMessage ''IdmConfigOps.deleteConfigEntitiesByType: start''],
                world = w\<rparr>;
          (tried, b) =
            (case await (readConfigEntitiesByType env type w) of
               Throw error \<Rightarrow> (Throw error, b0)
             | Normal configEntities \<Rightarrow>
                 (let b1 = delete_loop env ''deleteConfigEntitiesByType''
                             (map ident configEntities) b0
                  in if length (errors b1) > 0
                     then (Throw (FrodoError ''Error deleting config entities by type''
                                    (errors b1)), b1)
                     else (return_value (response b1),
                           b1\<lparr>trace := trace b1 @
                             [DebugMessage ''IdmConfigOps.deleteConfigEntitiesByType: end'']\<rparr>)))
      in (async (try_catch tried
            (\<lambda>error. if length (errors b) > 0 then Throw error
                      else Throw (FrodoError ''Error deleting config entities by type''
                                    [error]))),
          trace b, world b))"

text \<open>
  The single delete returns the promise of the API without awaiting it: the \<^verbatim>\<open>try\<close>
  block completes with that promise as soon as the request is sent.
\<close>

definition deleteConfigEntity ::
    "'w env \<Rightarrow> string \<Rightarrow> 'w \<Rightarrow> IdObjectSkeleton promise \<times> event list \<times> 'w" where
  "deleteConfigEntity env entityId w =
     (let (p, w') = api_deleteConfigEntity env entityId w
      in (async (try_catch (Normal p)
            (\<lambda>error. Throw
               (FrodoError (''Error deleting config entity '' @ entityId) [error]))),
          [Delete entityId p], w'))"

section \<open>Per-entity outcomes of the bulk operations, in the specification's words\<close>

text \<open>
  Section 4.3 of the specification describes an import id by id: (1) if
  \<^verbatim>\<open>options.validate\<close> is true and the validator fails on the entity, a validation error
  is recorded and no store call is made; (2) otherwise the upsert is attempted; (3) a
  failure of the upsert is suppressed when the deployment is the cloud offering, the id
  is in the protected set and the failure is a 403 of the bad-request class, and is
  recorded otherwise. \<open>spec_importOne\<close> is that description for one id and
  \<open>spec_importAll\<close> runs it over the ids in order, each on the store the one before left.
  \<open>Suppressed\<close> and \<open>Failed\<close> keep what the store rejected the request with.
\<close>

datatype attempt = Invalid | Applied IdObjectSkeleton | Suppressed error | Failed error

definition update_error :: "string \<Rightarrow> error \<Rightarrow> error" where
  "update_error entityId e = FrodoError (''Error updating config entity '' @ entityId) [e]"

definition protected_conflict :: "'w env \<Rightarrow> string \<Rightarrow> error \<Rightarrow> bool" where
  "protected_conflict env entityId e \<longleftrightarrow>
     getDeploymentType env = CLOUD_DEPLOYMENT_TYPE_KEY \<and>
     entityId \<in> set AIC_PROTECTED_ENTITIES \<and>
     httpStatus (update_error entityId e) = Some 403 \<and>
     httpCode (update_error entityId e) = Some ''ERR_BAD_REQUEST''"

definition spec_importOne ::
    "'w env \<Rightarrow> ConfigEntityExportInterface \<Rightarrow> ConfigEntityImportOptions \<Rightarrow> string \<Rightarrow> 'w \<Rightarrow>
       attempt \<times> 'w" where
  "spec_importOne env importData options entityId w =
     (if validate options \<and> \<not> areScriptHooksValid env (the (map_of (idm importData) entityId))
      then (Invalid, w)
      else (case api_putConfigEntity env entityId (the (map_of (idm importData) entityId)) False w of
              (Resolved r, w') \<Rightarrow> (Applied r, w')
            | (Rejected e, w') \<Rightarrow>
                (if protected_conflict env entityId e then (Suppressed e, w') else (Failed e, w'))))"

fun spec_importAll ::
    "'w env \<Rightarrow> ConfigEntityExportInterface \<Rightarrow> ConfigEntityImportOptions \<Rightarrow> string list \<Rightarrow> 'w \<Rightarrow>
       (string \<times> attempt) list \<times> 'w" where
  "spec_importAll env importData options [] w = ([], w)"
| "spec_importAll env importData options (entityId # entityIds) w =
     (let (a, w') = spec_importOne env importData options entityId w;
          (rest, w'') = spec_importAll env importData options entityIds w'
      in ((entityId, a) # rest, w''))"

text \<open>
  What an attempt contributes: to the failures the call reports (\<open>recorded\<close>), to the
  entities it returns (\<open>applied\<close>), and to the debug log and the requests sent
  (\<open>events_of\<close>). \<open>upserted\<close> reads the answers of the accepted upserts off a trace.
\<close>

fun recorded :: "string \<times> attempt \<Rightarrow> error list" where
  "recorded (entityId, Invalid) = [invalid_script_hook entityId]"
| "recorded (entityId, Failed e) = [update_error entityId e]"
| "recorded (entityId, Applied r) = []"
| "recorded (entityId, Suppressed e) = []"

fun applied :: "string \<times> attempt \<Rightarrow> IdObjectSkeleton list" where
  "applied (entityId, Applied r) = [r]"
| "applied (entityId, a) = []"

fun requests_of :: "ConfigEntityExportInterface \<Rightarrow> string \<times> attempt \<Rightarrow> event list" where
  "requests_of importData (entityId, Invalid) = []"
| "requests_of importData (entityId, Applied r) =
     [Put entityId (the (map_of (idm importData) entityId)) (Resolved r)]"
| "requests_of importData (entityId, Suppressed e) =
     [Put entityId (the (map_of (idm importData) entityId)) (Rejected e)]"
| "requests_of importData (entityId, Failed e) =
     [Put entityId (the (map_of (idm importData) entityId)) (Rejected e)]"

definition events_of :: "ConfigEntityExportInterface \<Rightarrow> string \<times> attempt \<Rightarrow> event list" where
  "events_of importData x =
     DebugMessage (''IdmConfigOps.importConfigEntities: '' @ fst x) # requests_of importData x"

fun upserted :: "event list \<Rightarrow> IdObjectSkeleton list" where
  "upserted [] = []"
| "upserted (Put entityId entityData (Resolved r) # evs) = r # upserted evs"
| "upserted (ev # evs) = upserted evs"

text \<open>
  Section 4.4: the delete operations delete each listed id in turn, whatever the deletes
  before it answered. \<open>spec_deleteAll\<close> is the list of the store's answers, in order;
  \<open>deleted\<close> and \<open>failed\<close> are what an answer contributes to the result and to the
  errors, and \<open>delete_requests\<close> reads the deletes sent off a trace.
\<close>

fun spec_deleteAll ::
    "'w env \<Rightarrow> string list \<Rightarrow> 'w \<Rightarrow> (string \<times> IdObjectSkeleton promise) list \<times> 'w" where
  "spec_deleteAll env [] w = ([], w)"
| "spec_deleteAll env (entityId # entityIds) w =
     (let (p, w') = api_deleteConfigEntity env entityId w;
          (rest, w'') = spec_deleteAll env entityIds w'
      in ((entityId, p) # rest, w''))"

fun deleted :: "string \<times> IdObjectSkeleton promise \<Rightarrow> IdObjectSkeleton list" where
  "deleted (entityId, Resolved r) = [r]"
| "deleted (entityId, Rejected e) = []"

fun failed :: "string \<times> IdObjectSkeleton promise \<Rightarrow> error list" where
  "failed (entityId, Resolved r) = []"
| "failed (entityId, Rejected e) = [e]"

definition delete_events :: "string \<Rightarrow> string \<times> IdObjectSkeleton promise \<Rightarrow> event list" where
  "delete_events name x =
     [DebugMessage (''IdmConfigOps.'' @ name @ '': '' @ [CHR 0x27] @ fst x @ [CHR 0x27]),
      Delete (fst x) (snd x)]"

fun delete_requests :: "event list \<Rightarrow> (string \<times> IdObjectSkeleton promise) list" where
  "delete_requests [] = []"
| "delete_requests (Delete entityId p # evs) = (entityId, p) # delete_requests evs"
| "delete_requests (ev # evs) = delete_requests evs"

section \<open>A store to run the operations against\<close>

text \<open>
  Modelled from the spec: the remote store (\<^verbatim>\<open>ConfigStore\<close> in section 6 of the
  specification), which is outside the repository. It holds one document per id;
  \<^verbatim>\<open>putEntity\<close> is an upsert (create or replace) that answers with the stored document,
  \<^verbatim>\<open>deleteEntity\<close> removes one and answers with it, \<^verbatim>\<open>getEntity\<close> fails when there is
  none. The faults say which requests the store refuses and with what; a refusal depends
  on the request only and leaves the store as it was. The console's \<^verbatim>\<open>printError\<close>, given
  no state, throws a \<^verbatim>\<open>TypeError\<close> when it reads the error handler of the state.
\<close>

record faults =
  listing_fault :: "error option"
  get_fault :: "string \<Rightarrow> error option"
  put_fault :: "string \<Rightarrow> IdObjectSkeleton \<Rightarrow> error option"
  delete_fault :: "string \<Rightarrow> error option"

definition not_found :: error where
  "not_found = AxiosError (Some ''ERR_BAD_REQUEST'') (Some 404) None (Some ''Not Found'')"

definition no_state :: string where
  "no_state = ''Cannot read properties of undefined (reading '' @ [CHR 0x27] @
     ''getErrorHandler'' @ [CHR 0x27] @ '')''"

definition store_env ::
    "faults \<Rightarrow> string \<Rightarrow> (IdObjectSkeleton \<Rightarrow> bool) \<Rightarrow> ExportMetaData \<Rightarrow>
       (string \<times> IdObjectSkeleton) list env" where
  "store_env f deployment valid metadata =
     \<lparr>api_getConfigStubs = (\<lambda>w. case listing_fault f of
          Some e \<Rightarrow> Rejected e
        | None \<Rightarrow> Resolved
            (map (\<lambda>(k, d). \<lparr>ident = k, content = [], pid = k, factoryPid = None\<rparr>) w)),
      api_getConfigEntities = (\<lambda>w. case listing_fault f of
          Some e \<Rightarrow> Rejected e
        | None \<Rightarrow> Resolved (map snd w)),
      api_getConfigEntitiesByType = (\<lambda>type w. case listing_fault f of
          Some e \<Rightarrow> Rejected e
        | None \<Rightarrow> Resolved (map snd (filter (\<lambda>(k, d). take (length type) k = type) w))),
      api_getConfigEntity = (\<lambda>k w. case get_fault f k of
          Some e \<Rightarrow> Rejected e
        | None \<Rightarrow> (case map_of w k of Some d \<Rightarrow> Resolved d | None \<Rightarrow> Rejected not_found)),
      api_putConfigEntity = (\<lambda>k d wait w. case put_fault f k d of
          Some e \<Rightarrow> (Rejected e, w)
        | None \<Rightarrow> (Resolved (d\<lparr>ident := k\<rparr>), AList.update k (d\<lparr>ident := k\<rparr>) w)),
      api_deleteConfigEntity = (\<lambda>k w. case delete_fault f k of
          Some e \<Rightarrow> (Rejected e, w)
        | None \<Rightarrow> (case map_of w k of
                     Some d \<Rightarrow> (Resolved d, AList.delete k w)
                   | None \<Rightarrow> (Rejected not_found, w))),
      getDeploymentType = deployment,
      areScriptHooksValid = valid,
      getMetadata = metadata,
      printError = (\<lambda>error. Throw (TypeError no_state))\<rparr>"

text \<open>What an import of the bundle writes to that store under an id, if anything.\<close>

definition store_writes ::
    "faults \<Rightarrow> (IdObjectSkeleton \<Rightarrow> bool) \<Rightarrow> ConfigEntityExportInterface \<Rightarrow>
       ConfigEntityImportOptions \<Rightarrow> string \<Rightarrow> IdObjectSkeleton option" where
  "store_writes f valid importData options entityId =
     (if validate options \<and> \<not> valid (the (map_of (idm importData) entityId)) then None
      else (case put_fault f entityId (the (map_of (idm importData) entityId)) of
              Some e \<Rightarrow> None
            | None \<Rightarrow> Some ((the (map_of (idm importData) entityId))\<lparr>ident := entityId\<rparr>)))"

section \<open>Examples\<close>

text \<open>Concrete stores, failures and bundles at which the theorems below are evaluated.\<close>

definition no_faults :: faults where
  "no_faults =
     \<lparr>listing_fault = None, get_fault = (\<lambda>k. None), put_fault = (\<lambda>k d. None),
      delete_fault = (\<lambda>k. None)\<rparr>"

definition example_metadata :: ExportMetaData where
  "example_metadata =
     \<lparr>origin = ''https://openam-frodo-dev.forgeblocks.com/am'', exportedBy = ''admin'',
      exportDate = ''2026-01-01T00:00:00.000Z'', exportTool = ''frodo'',
      exportToolVersion = ''v2.0.0''\<rparr>"

definition entity :: "string \<Rightarrow> IdObjectSkeleton" where
  "entity k = \<lparr>ident = k, content = []\<rparr>"

definition hooked_entity :: "string \<Rightarrow> IdObjectSkeleton" where
  "hooked_entity k =
     \<lparr>ident = k,
      content = [(''onCreate'', JObject [(''type'', JString ''text/javascript''),
                                         (''source'', JString ''require('')])]\<rparr>"

definition no_hooks :: "IdObjectSkeleton \<Rightarrow> bool" where
  "no_hooks d \<longleftrightarrow> content d = []"

definition server_error :: error where
  "server_error =
     AxiosError (Some ''ERR_BAD_RESPONSE'') (Some 500) (Some ''Internal Server Error'') None"

definition forbidden :: error where
  "forbidden = AxiosError (Some ''ERR_BAD_REQUEST'') (Some 403) (Some ''Access denied'') (Some ''Forbidden'')"

definition legacy_not_found :: error where
  "legacy_not_found =
     AxiosError (Some ''ERR_BAD_REQUEST'') (Some 404)
       (Some ''No configuration exists for id org.apache.felix.fileinstall/openidm'')
       (Some ''Not Found'')"

definition example_store :: "(string \<times> IdObjectSkeleton) list" where
  "example_store = [(''managed'', entity ''managed''), (''script'', entity ''script'')]"

definition script_store :: "(string \<times> IdObjectSkeleton) list" where
  "script_store =
     [(''script/a'', entity ''script/a''), (''script/b'', entity ''script/b''),
      (''managed'', entity ''managed''), (''script/c'', entity ''script/c'')]"

definition bundle_of :: "(string \<times> IdObjectSkeleton) list \<Rightarrow> ConfigEntityExportInterface" where
  "bundle_of entries = \<lparr>meta = Some example_metadata, idm = entries\<rparr>"

definition import_bundle :: ConfigEntityExportInterface where
  "import_bundle =
     bundle_of [(''managed'', entity ''managed''),
             (''emailTemplate/frOnboarding'', entity ''emailTemplate/frOnboarding''),
             (''sync'', entity ''sync'')]"

definition listing_faults :: faults where
  "listing_faults = no_faults\<lparr>listing_fault := Some server_error\<rparr>"

definition export_faults :: faults where
  "export_faults =
     no_faults\<lparr>get_fault := (\<lambda>k.
        if k = ''script'' then Some not_found
        else if k = ''fileinstall'' then Some legacy_not_found
        else if k = ''sync'' then Some not_found
        else if k = ''managed'' then Some server_error else None)\<rparr>"

definition import_faults :: faults where
  "import_faults =
     no_faults\<lparr>put_fault := (\<lambda>k d.
        if k = ''emailTemplate/frOnboarding'' then Some forbidden
        else if k = ''managed'' then Some server_error else None)\<rparr>"

definition protected_faults :: faults where
  "protected_faults =
     no_faults\<lparr>put_fault := (\<lambda>k d.
        if k = ''emailTemplate/frOnboarding'' then Some forbidden else None)\<rparr>"

definition delete_faults :: faults where
  "delete_faults =
     no_faults\<lparr>delete_fault := (\<lambda>k. if k = ''managed'' then Some server_error else None)\<rparr>"

definition script_faults :: faults where
  "script_faults =
     no_faults\<lparr>delete_fault := (\<lambda>k. if k = ''script/b'' then Some server_error else None)\<rparr>"

section \<open>Lemmas\<close>

subsection \<open>The import loop computes the attempts of the specification\<close>

lemma importConfigEntities_body_spec:
  "importConfigEntities_body env importData options entityId b =
     (let (a, w') = spec_importOne env importData options entityId (world b)
      in b\<lparr>response := response b @ applied (entityId, a),
           errors := errors b @ recorded (entityId, a),
           trace := trace b @ events_of importData (entityId, a),
           world := w'\<rparr>)"
  by (cases "api_putConfigEntity env entityId (the (map_of (idm importData) entityId)) False (world b)";
      cases "fst (api_putConfigEntity env entityId (the (map_of (idm importData) entityId)) False (world b))")
     (simp_all add: importConfigEntities_body_def spec_importOne_def updateConfigEntity_def
        events_of_def return_value_def protected_conflict_def update_error_def Let_def)

lemma importConfigEntities_loop_spec:
  "importConfigEntities_loop env importData options entityIds b =
     (let (as, w') = spec_importAll env importData options entityIds (world b)
      in b\<lparr>response := response b @ concat (map applied as),
           errors := errors b @ concat (map recorded as),
           trace := trace b @ concat (map (events_of importData) as),
           world := w'\<rparr>)"
proof (induction entityIds arbitrary: b)
  case Nil
  show ?case by simp
next
  case (Cons entityId entityIds)
  show ?case
    by (simp add: Cons.IH importConfigEntities_body_spec split: prod.splits)
qed

lemma importConfigEntities_spec:
  "importConfigEntities env importData options w =
     (let (as, w') = spec_importAll env importData options (Object_keys (idm importData)) w;
          tr = DebugMessage ''IdmConfigOps.importConfigEntities: start'' #
                 concat (map (events_of importData) as)
      in if concat (map recorded as) = []
         then (Resolved (concat (map applied as)),
               tr @ [DebugMessage ''IdmConfigOps.importConfigEntities: end''], w')
         else (Rejected (FrodoError ''Error importing config entities''
                 (concat (map recorded as))), tr, w'))"
  by (simp add: importConfigEntities_def importConfigEntities_loop_spec Let_def split: prod.splits)

lemma importConfigEntities_world:
  "snd (snd (importConfigEntities env importData options w)) =
     snd (spec_importAll env importData options (Object_keys (idm importData)) w)"
  by (simp add: importConfigEntities_spec Let_def split_beta)

lemma importConfigEntities_outcome:
  "fst (importConfigEntities env importData options w) =
     (if concat (map recorded
           (fst (spec_importAll env importData options (Object_keys (idm importData)) w))) = []
      then Resolved (concat (map applied
           (fst (spec_importAll env importData options (Object_keys (idm importData)) w))))
      else Rejected (FrodoError ''Error importing config entities''
        (concat (map recorded
           (fst (spec_importAll env importData options (Object_keys (idm importData)) w))))))"
  by (simp add: importConfigEntities_spec Let_def split_beta)

lemma spec_importAll_keys:
  "map fst (fst (spec_importAll env importData options entityIds w)) = entityIds"
  by (induction entityIds arbitrary: w) (simp_all add: Let_def split_beta)

lemma attempts_cover_keys:
  "k \<in> set entityIds \<Longrightarrow>
     \<exists>a. (k, a) \<in> set (fst (spec_importAll env importData options entityIds w))"
proof -
  assume "k \<in> set entityIds"
  then have "k \<in> set (map fst (fst (spec_importAll env importData options entityIds w)))"
    by (simp only: spec_importAll_keys)
  then show ?thesis by auto
qed

lemma spec_importOne_Invalid:
  "fst (spec_importOne env importData options entityId w) = Invalid \<longleftrightarrow>
     validate options \<and> \<not> areScriptHooksValid env (the (map_of (idm importData) entityId))"
  by (auto simp: spec_importOne_def split: prod.splits promise.splits)

lemma spec_importOne_Failed:
  "fst (spec_importOne env importData options entityId w) = Failed e \<Longrightarrow>
     \<not> protected_conflict env entityId e"
  by (auto simp: spec_importOne_def split: prod.splits promise.splits if_splits)

lemma spec_importAll_attempt:
  "(entityId, a) \<in> set (fst (spec_importAll env importData options entityIds w)) \<Longrightarrow>
     \<exists>w0. a = fst (spec_importOne env importData options entityId w0)"
proof (induction entityIds arbitrary: w)
  case Nil
  then show ?case by simp
next
  case (Cons k ks)
  from Cons.prems consider
      "entityId = k" "a = fst (spec_importOne env importData options k w)"
    | "(entityId, a) \<in> set (fst (spec_importAll env importData options ks
         (snd (spec_importOne env importData options k w))))"
    by (auto simp: Let_def split_beta)
  then show ?case
  proof cases
    case 1
    then show ?thesis by blast
  next
    case 2
    then show ?thesis by (rule Cons.IH)
  qed
qed

lemma recorded_none:
  "(\<And>x. x \<in> set as \<Longrightarrow> recorded x = []) \<Longrightarrow> concat (map recorded as) = []"
  by (induction as) simp_all

subsection \<open>Reading an import off its trace\<close>

lemma upserted_append: "upserted (xs @ ys) = upserted xs @ upserted ys"
  by (induction xs rule: upserted.induct) simp_all

lemma upserted_events_of: "upserted (events_of importData x) = applied x"
  by (cases x; cases "snd x") (simp_all add: events_of_def)

lemma upserted_attempts:
  "upserted (concat (map (events_of importData) as)) = concat (map applied as)"
  by (induction as) (simp_all add: upserted_append upserted_events_of)

lemma upserted_trace:
  "upserted (DebugMessage s # concat (map (events_of importData) as) @ [DebugMessage t]) =
     concat (map applied as)"
  by (simp add: upserted_append upserted_attempts)

lemma Put_in_events_of:
  "Put k d p \<in> set (events_of importData x) \<longleftrightarrow>
     fst x = k \<and> Put k d p \<in> set (requests_of importData x)"
  by (cases x; cases "snd x") (auto simp: events_of_def)

lemma Put_in_events:
  "Put k d p \<in> set (concat (map (events_of importData) as)) \<longleftrightarrow>
     (\<exists>a. (k, a) \<in> set as \<and> Put k d p \<in> set (requests_of importData (k, a)))"
  by (force simp: Put_in_events_of)

lemma Debug_in_events:
  "(k, a) \<in> set as \<Longrightarrow>
     DebugMessage (''IdmConfigOps.importConfigEntities: '' @ k)
       \<in> set (concat (map (events_of importData) as))"
  by (force simp: events_of_def)

subsection \<open>Protected entities\<close>

lemma importConfigEntities_body_suppresses:
  assumes "protected_conflict env entityId e"
    and "\<not> (validate options \<and>
            \<not> areScriptHooksValid env (the (map_of (idm importData) entityId)))"
    and "api_putConfigEntity env entityId (the (map_of (idm importData) entityId)) False
           (world b) = (Rejected e, w')"
  shows "importConfigEntities_body env importData options entityId b =
     b\<lparr>trace := trace b @
          [DebugMessage (''IdmConfigOps.importConfigEntities: '' @ entityId),
           Put entityId (the (map_of (idm importData) entityId)) (Rejected e)],
       world := w'\<rparr>"
  using assms by (auto simp: importConfigEntities_body_spec spec_importOne_def events_of_def)

lemma protected_failure_not_recorded:
  assumes "protected_conflict env entityId e"
  shows "update_error entityId e
     \<notin> set (concat (map recorded (fst (spec_importAll env importData options entityIds w))))"
proof
  let ?as = "fst (spec_importAll env importData options entityIds w)"
  assume "update_error entityId e \<in> set (concat (map recorded ?as))"
  then obtain k a where ka: "(k, a) \<in> set ?as"
    and r: "update_error entityId e \<in> set (recorded (k, a))" by auto
  from r have a: "a = Failed e" and k: "k = entityId"
    by (cases a; simp add: update_error_def invalid_script_hook_def)+
  from spec_importAll_attempt [OF ka]
  obtain w0 where "a = fst (spec_importOne env importData options k w0)" by auto
  with a k have "fst (spec_importOne env importData options entityId w0) = Failed e" by simp
  then have "\<not> protected_conflict env entityId e" by (rule spec_importOne_Failed)
  with assms show False by simp
qed

lemma importConfigEntities_every_id:
  assumes "k \<in> set (Object_keys (idm importData))"
  shows "DebugMessage (''IdmConfigOps.importConfigEntities: '' @ k)
           \<in> set (fst (snd (importConfigEntities env importData options w))) \<and>
         (validate options \<and> \<not> areScriptHooksValid env (the (map_of (idm importData) k)) \<or>
          (\<exists>p. Put k (the (map_of (idm importData) k)) p
                 \<in> set (fst (snd (importConfigEntities env importData options w)))))"
proof -
  let ?as = "fst (spec_importAll env importData options (Object_keys (idm importData)) w)"
  let ?tr = "fst (snd (importConfigEntities env importData options w))"
  have in_trace: "ev \<in> set ?tr" if "ev \<in> set (concat (map (events_of importData) ?as))" for ev
    using that by (simp add: importConfigEntities_spec Let_def split_beta)
  from attempts_cover_keys [OF assms, where env = env and importData = importData
    and options = options and w = w]
  obtain a where a: "(k, a) \<in> set ?as" by blast
  from Debug_in_events [OF a] have debug:
    "DebugMessage (''IdmConfigOps.importConfigEntities: '' @ k) \<in> set ?tr"
    by (rule in_trace)
  from spec_importAll_attempt [OF a]
  obtain w0 where w0: "a = fst (spec_importOne env importData options k w0)" by auto
  show ?thesis
  proof (cases "a = Invalid")
    case True
    with w0 have "fst (spec_importOne env importData options k w0) = Invalid" by simp
    then have "validate options \<and>
        \<not> areScriptHooksValid env (the (map_of (idm importData) k))"
      by (simp add: spec_importOne_Invalid)
    with debug show ?thesis by simp
  next
    case False
    then have "\<exists>p. Put k (the (map_of (idm importData) k)) p
        \<in> set (requests_of importData (k, a))"
      by (cases a) simp_all
    then obtain p where "Put k (the (map_of (idm importData) k)) p
        \<in> set (requests_of importData (k, a))" by blast
    with a have "Put k (the (map_of (idm importData) k)) p
        \<in> set (concat (map (events_of importData) ?as))"
      by (simp only: Put_in_events) blast
    then have "Put k (the (map_of (idm importData) k)) p \<in> set ?tr" by (rule in_trace)
    with debug show ?thesis by blast
  qed
qed

lemma importConfigEntities_sole_failures:
  assumes cloud: "getDeploymentType env = CLOUD_DEPLOYMENT_TYPE_KEY"
    and prot: "entityId \<in> set AIC_PROTECTED_ENTITIES"
    and valid: "\<forall>k \<in> set (Object_keys (idm importData)).
                  validate options \<longrightarrow> areScriptHooksValid env (the (map_of (idm importData) k))"
    and only: "\<forall>k d e.
        Put k d (Rejected e) \<in> set (fst (snd (importConfigEntities env importData options w))) \<longrightarrow>
          k = entityId \<and>
          httpStatus (FrodoError (''Error updating config entity '' @ k) [e]) = Some 403 \<and>
          httpCode (FrodoError (''Error updating config entity '' @ k) [e]) =
            Some ''ERR_BAD_REQUEST''"
  shows "fst (importConfigEntities env importData options w) =
           Resolved (upserted (fst (snd (importConfigEntities env importData options w)))) \<and>
         (\<forall>k \<in> set (Object_keys (idm importData)).
            \<exists>p. Put k (the (map_of (idm importData) k)) p
                  \<in> set (fst (snd (importConfigEntities env importData options w)))) \<and>
         (\<forall>k \<in> set (Object_keys (idm importData)). k \<noteq> entityId \<longrightarrow>
            (\<exists>r. Put k (the (map_of (idm importData) k)) (Resolved r)
                    \<in> set (fst (snd (importConfigEntities env importData options w))) \<and>
                  r \<in> set (upserted (fst (snd (importConfigEntities env importData options w))))))"
proof -
  let ?keys = "Object_keys (idm importData)"
  let ?as = "fst (spec_importAll env importData options ?keys w)"
  let ?tr = "fst (snd (importConfigEntities env importData options w))"
  have keys: "k \<in> set ?keys" if "(k, a) \<in> set ?as" for k a
  proof -
    from that have "k \<in> set (map fst ?as)" by force
    then show ?thesis by (simp only: spec_importAll_keys)
  qed
  have not_invalid: "a \<noteq> Invalid" if "(k, a) \<in> set ?as" for k a
  proof -
    from spec_importAll_attempt [OF that]
    obtain w0 where a: "a = fst (spec_importOne env importData options k w0)" by auto
    from valid keys [OF that]
    have "validate options \<longrightarrow> areScriptHooksValid env (the (map_of (idm importData) k))"
      by blast
    with a show ?thesis by (simp add: spec_importOne_Invalid)
  qed
  have in_trace: "ev \<in> set ?tr" if "ev \<in> set (concat (map (events_of importData) ?as))" for ev
    using that by (simp add: importConfigEntities_spec Let_def split_beta)
  have rejected: "k = entityId \<and> protected_conflict env k e"
    if "(k, a) \<in> set ?as" and "a = Suppressed e \<or> a = Failed e" for k a e
  proof -
    from that have "Put k (the (map_of (idm importData) k)) (Rejected e)
        \<in> set (requests_of importData (k, a))" by auto
    with that(1) have "Put k (the (map_of (idm importData) k)) (Rejected e)
        \<in> set (concat (map (events_of importData) ?as))"
      by (simp only: Put_in_events) blast
    then have "Put k (the (map_of (idm importData) k)) (Rejected e) \<in> set ?tr"
      by (rule in_trace)
    with only have "k = entityId \<and>
          httpStatus (FrodoError (''Error updating config entity '' @ k) [e]) = Some 403 \<and>
          httpCode (FrodoError (''Error updating config entity '' @ k) [e]) =
            Some ''ERR_BAD_REQUEST''" by blast
    with cloud prot show ?thesis by (simp add: protected_conflict_def update_error_def)
  qed
  have not_failed: "a \<noteq> Failed e" if "(k, a) \<in> set ?as" for k a e
  proof
    assume f: "a = Failed e"
    with rejected [OF that, of e] have "protected_conflict env k e" by blast
    moreover from spec_importAll_attempt [OF that]
    obtain w0 where "a = fst (spec_importOne env importData options k w0)" by auto
    with f have "\<not> protected_conflict env k e" by (simp add: spec_importOne_Failed)
    ultimately show False by simp
  qed
  have "recorded x = []" if "x \<in> set ?as" for x
  proof -
    obtain k a where x: "x = (k, a)" by (cases x)
    with that not_invalid [of k a] not_failed [of k a] show ?thesis by (cases a) auto
  qed
  then have none: "concat (map recorded ?as) = []" by (rule recorded_none)
  then have tr: "?tr = DebugMessage ''IdmConfigOps.importConfigEntities: start'' #
      concat (map (events_of importData) ?as) @
      [DebugMessage ''IdmConfigOps.importConfigEntities: end'']"
    by (simp add: importConfigEntities_spec Let_def split_beta)
  have ups: "upserted ?tr = concat (map applied ?as)"
    by (simp only: tr upserted_trace)
  from none have out: "fst (importConfigEntities env importData options w) =
      Resolved (upserted ?tr)"
    by (simp add: ups) (simp add: importConfigEntities_spec Let_def split_beta)
  have every: "\<exists>p. Put k (the (map_of (idm importData) k)) p \<in> set ?tr"
    if "k \<in> set ?keys" for k
  proof -
    from attempts_cover_keys [OF that, where env = env and importData = importData
      and options = options and w = w]
    obtain a where a: "(k, a) \<in> set ?as" by blast
    with not_invalid [OF a]
    have "\<exists>p. Put k (the (map_of (idm importData) k)) p \<in> set (requests_of importData (k, a))"
      by (cases a) simp_all
    then obtain p where "Put k (the (map_of (idm importData) k)) p
        \<in> set (requests_of importData (k, a))" by blast
    with a have "Put k (the (map_of (idm importData) k)) p
        \<in> set (concat (map (events_of importData) ?as))"
      by (simp only: Put_in_events) blast
    then show ?thesis using in_trace by blast
  qed
  have others: "\<exists>r. Put k (the (map_of (idm importData) k)) (Resolved r) \<in> set ?tr \<and>
      r \<in> set (upserted ?tr)"
    if "k \<in> set ?keys" and "k \<noteq> entityId" for k
  proof -
    from attempts_cover_keys [OF that(1), where env = env and importData = importData
      and options = options and w = w]
    obtain a where a: "(k, a) \<in> set ?as" by blast
    from not_invalid [OF a] rejected [OF a] that(2)
    obtain r where r: "a = Applied r" by (cases a) auto
    with a have "Put k (the (map_of (idm importData) k)) (Resolved r)
        \<in> set (concat (map (events_of importData) ?as))"
      by (simp only: Put_in_events) force
    then have 1: "Put k (the (map_of (idm importData) k)) (Resolved r) \<in> set ?tr"
      by (rule in_trace)
    from a r have "r \<in> set (concat (map applied ?as))" by force
    then have "r \<in> set (upserted ?tr)" by (simp only: ups)
    with 1 show ?thesis by blast
  qed
  from out every others show ?thesis by blast
qed

subsection \<open>Imports into the store\<close>

lemma store_importOne_world:
  "snd (spec_importOne (store_env f deployment valid metadata) importData options entityId w) =
     (case store_writes f valid importData options entityId of
        None \<Rightarrow> w
      | Some v \<Rightarrow> AList.update entityId v w)"
  by (simp add: spec_importOne_def store_env_def store_writes_def split: option.splits)

lemma store_importOne_attempt:
  "fst (spec_importOne (store_env f deployment valid metadata) importData options entityId w) =
   fst (spec_importOne (store_env f deployment valid metadata) importData options entityId w')"
  by (simp add: spec_importOne_def store_env_def split: option.splits)

lemma store_importAll_attempts:
  "fst (spec_importAll (store_env f deployment valid metadata) importData options entityIds w) =
   fst (spec_importAll (store_env f deployment valid metadata) importData options entityIds w')"
proof (induction entityIds arbitrary: w w')
  case Nil
  show ?case by simp
next
  case (Cons k ks)
  show ?case
    using store_importOne_attempt [of f deployment valid metadata importData options k w w']
      Cons.IH [of "snd (spec_importOne (store_env f deployment valid metadata)
                       importData options k w)"
                  "snd (spec_importOne (store_env f deployment valid metadata)
                       importData options k w')"]
    by (simp add: Let_def split_beta)
qed

lemma store_importAll_lookup:
  "map_of (snd (spec_importAll (store_env f deployment valid metadata)
             importData options entityIds w)) k =
     (if k \<in> set entityIds \<and> store_writes f valid importData options k \<noteq> None
      then store_writes f valid importData options k
      else map_of w k)"
proof (induction entityIds arbitrary: w)
  case Nil
  show ?case by simp
next
  case (Cons x xs)
  show ?case
    by (auto simp: Let_def split_beta Cons.IH store_importOne_world update_conv'
          split: option.splits)
qed

lemma store_importAll_fixpoint:
  "(\<And>k v. k \<in> set entityIds \<Longrightarrow> store_writes f valid importData options k = Some v \<Longrightarrow>
      map_of w k = Some v) \<Longrightarrow>
   snd (spec_importAll (store_env f deployment valid metadata)
          importData options entityIds w) = w"
proof (induction entityIds)
  case Nil
  show ?case by simp
next
  case (Cons x xs)
  have "snd (spec_importOne (store_env f deployment valid metadata) importData options x w) = w"
    using Cons.prems [of x]
    by (simp add: store_importOne_world update_triv split: option.splits)
  moreover have "snd (spec_importAll (store_env f deployment valid metadata)
      importData options xs w) = w"
    using Cons.prems by (intro Cons.IH) simp_all
  ultimately show ?case by (simp add: Let_def split_beta)
qed

subsection \<open>The delete loop\<close>

lemma error_not_its_wrapper: "e \<noteq> FrodoError m [e]"
proof
  assume "e = FrodoError m [e]"
  then have "size e = size (FrodoError m [e])" by simp
  then show False by simp
qed

lemma delete_body_spec:
  "delete_body env name entityId b =
     (let (p, w') = api_deleteConfigEntity env entityId (world b)
      in b\<lparr>response := response b @ deleted (entityId, p),
           errors := errors b @ failed (entityId, p),
           trace := trace b @ delete_events name (entityId, p),
           world := w'\<rparr>)"
  by (cases "api_deleteConfigEntity env entityId (world b)";
      cases "fst (api_deleteConfigEntity env entityId (world b))")
     (simp_all add: delete_body_def delete_events_def Let_def)

lemma delete_loop_spec:
  "delete_loop env name entityIds b =
     (let (ds, w') = spec_deleteAll env entityIds (world b)
      in b\<lparr>response := response b @ concat (map deleted ds),
           errors := errors b @ concat (map failed ds),
           trace := trace b @ concat (map (delete_events name) ds),
           world := w'\<rparr>)"
proof (induction entityIds arbitrary: b)
  case Nil
  show ?case by simp
next
  case (Cons entityId entityIds)
  show ?case
    by (simp add: Cons.IH delete_body_spec Let_def split_beta)
qed

lemma spec_deleteAll_keys: "map fst (fst (spec_deleteAll env entityIds w)) = entityIds"
  by (induction entityIds arbitrary: w) (simp_all add: Let_def split_beta)

lemma delete_requests_append:
  "delete_requests (xs @ ys) = delete_requests xs @ delete_requests ys"
  by (induction xs rule: delete_requests.induct) simp_all

lemma delete_requests_events:
  "delete_requests (concat (map (delete_events name) ds)) = ds"
  by (induction ds) (simp_all add: delete_events_def)

lemma deleteConfigEntities_when_listing_fails:
  "api_getConfigStubs env w = Rejected e \<Longrightarrow>
     deleteConfigEntities env w =
       (Rejected (FrodoError ''Error deleting config entities''
          [FrodoError ''Error reading config entity stubs'' [e]]),
        [DebugMessage ''IdmConfigOps.deleteConfigEntities: start''], w)"
  by (simp add: deleteConfigEntities_def readConfigEntityStubs_def)

lemma deleteConfigEntitiesByType_when_listing_fails:
  "api_getConfigEntitiesByType env type w = Rejected e \<Longrightarrow>
     deleteConfigEntitiesByType env type w =
       (Rejected (FrodoError ''Error deleting config entities by type''
          [(FrodoError ''Error reading config entities by type'' [e])]),
        [DebugMessage ''IdmConfigOps.deleteConfigEntitiesByType: start''], w)"
  by (simp add: deleteConfigEntitiesByType_def readConfigEntitiesByType_def)

lemma deleteConfigEntities_spec:
  "api_getConfigStubs env w = Resolved stubs \<Longrightarrow>
     deleteConfigEntities env w =
       (let (ds, w') = spec_deleteAll env (map ident stubs) w;
            tr = DebugMessage ''IdmConfigOps.deleteConfigEntities: start'' #
                   concat (map (delete_events ''deleteConfigEntities'') ds)
        in if concat (map failed ds) = []
           then (Resolved (concat (map deleted ds)),
                 tr @ [DebugMessage ''IdmConfigOps.deleteConfigEntities: end''], w')
           else (Rejected (FrodoError ''Error deleting config entities''
                   (concat (map failed ds))), tr, w'))"
  by (simp add: deleteConfigEntities_def readConfigEntityStubs_def return_value_def
        delete_loop_spec Let_def split_beta)

lemma deleteConfigEntitiesByType_spec:
  "api_getConfigEntitiesByType env type w = Resolved configEntities \<Longrightarrow>
     deleteConfigEntitiesByType env type w =
       (let (ds, w') = spec_deleteAll env (map ident configEntities) w;
            tr = DebugMessage ''IdmConfigOps.deleteConfigEntitiesByType: start'' #
                   concat (map (delete_events ''deleteConfigEntitiesByType'') ds)
        in if concat (map failed ds) = []
           then (Resolved (concat (map deleted ds)),
                 tr @ [DebugMessage ''IdmConfigOps.deleteConfigEntitiesByType: end''], w')
           else (Rejected (FrodoError ''Error deleting config entities by type''
                   (concat (map failed ds))), tr, w'))"
  by (simp add: deleteConfigEntitiesByType_def readConfigEntitiesByType_def return_value_def
        delete_loop_spec Let_def split_beta)

subsection \<open>Export\<close>

lemma readConfigEntity_cases:
  "readConfigEntity env entityId w =
     (case api_getConfigEntity env entityId w of
        Resolved d \<Rightarrow> Resolved d
      | Rejected e \<Rightarrow>
          Rejected (FrodoError (''Error reading config entity '' @ entityId) [e]))"
  by (simp add: readConfigEntity_def return_value_def split: promise.splits)

lemma readConfigEntities_cases:
  "readConfigEntities env w =
     (case api_getConfigEntities env w of
        Resolved r \<Rightarrow> Resolved r
      | Rejected e \<Rightarrow> Rejected (FrodoError ''Error reading config entities'' [e]))"
  by (simp add: readConfigEntities_def return_value_def split: promise.splits)

lemma exportConfigEntities_when_listing_fails:
  "readConfigEntities env w = Rejected error \<Longrightarrow>
     exportConfigEntities env w =
       ((case printError env error of Normal u \<Rightarrow> Resolved None | Throw t \<Rightarrow> Rejected t),
        [PrintError error])"
  by (simp add: exportConfigEntities_def return_value_def split: completion.splits)

lemma exportConfigEntities_when_listed:
  "readConfigEntities env w = Resolved configurations \<Longrightarrow>
     exportConfigEntities env w =
       (Resolved (Some (insert_results (map (\<lambda>c. fst (entityPromise env w c)) configurations)
                         (createConfigEntityExportTemplate env))),
        CreateProgressIndicator (length configurations) Exporting_config_entities #
        map (\<lambda>c. UpdateProgressIndicator (Exporting_config_entity (ident c))) configurations @
        concat (map (\<lambda>c. snd (entityPromise env w c)) configurations) @
        [StopProgressIndicator (Exported_config_entities (length configurations)) ''success''])"
  by (simp add: exportConfigEntities_def Let_def comp_def)

lemma insert_results_keys:
  "set (Object_keys (idm (insert_results results exportData))) =
     set (Object_keys (idm exportData)) \<union> ident ` {d. Some d \<in> set results}"
proof (induction results exportData rule: insert_results.induct)
  case (1 exportData)
  show ?case by simp
next
  case (2 results exportData)
  then show ?case by auto
next
  case (3 result results exportData)
  then show ?case by (auto simp: Object_keys_def update_keys)
qed

lemma insert_results_lookup:
  assumes "\<And>d. Some d \<in> set results \<Longrightarrow> g (ident d) = Some d"
  shows "map_of (idm (insert_results results exportData)) k =
     (if k \<in> ident ` {d. Some d \<in> set results} then g k else map_of (idm exportData) k)"
  using assms
proof (induction results exportData rule: insert_results.induct)
  case (1 exportData)
  show ?case by simp
next
  case (2 results exportData)
  then show ?case by auto
next
  case (3 result results exportData)
  from "3.prems" have g: "g (ident result) = Some result" by simp
  from "3.prems" have "\<And>d. Some d \<in> set results \<Longrightarrow> g (ident d) = Some d" by simp
  from "3.IH" [OF this] g show ?case
    by (auto simp: update_conv')
qed

lemma entityPromise_result:
  "fst (entityPromise env w c) = Some d \<longleftrightarrow> readConfigEntity env (ident c) w = Resolved d"
  by (simp add: entityPromise_def split: promise.splits)

lemma entityPromise_messages:
  "ev \<in> set (snd (entityPromise env w c)) \<Longrightarrow>
     \<exists>e. readConfigEntity env (ident c) w = Rejected e \<and>
         ev \<in> set (readConfigEntityError_handler (ident c) e)"
  by (auto simp: entityPromise_def split: promise.splits)

lemma PrintMessage_in_export:
  assumes "PrintMessage m t \<in> set (snd (exportConfigEntities env w))"
  shows "\<exists>k e. readConfigEntity env k w = Rejected e \<and>
               PrintMessage m t \<in> set (readConfigEntityError_handler k e)"
proof (cases "readConfigEntities env w")
  case (Rejected error)
  with assms show ?thesis by (simp add: exportConfigEntities_when_listing_fails)
next
  case (Resolved configurations)
  with assms obtain c where "PrintMessage m t \<in> set (snd (entityPromise env w c))"
    by (auto simp: exportConfigEntities_when_listed)
  from entityPromise_messages [OF this] show ?thesis by blast
qed

lemma handler_messages:
  "PrintMessage m t \<in> set (readConfigEntityError_handler k e) \<Longrightarrow>
     m = Response_data e \<or> m = Error_getting_config_entity k e"
  by (auto simp: readConfigEntityError_handler_def split: if_splits)

lemma exported_keys:
  assumes consistent: "\<forall>k d. api_getConfigEntity env k w = Resolved d \<longrightarrow> ident d = k"
    and out: "fst (exportConfigEntities env w) = Resolved (Some exportData)"
    and key: "k \<in> set (Object_keys (idm exportData))"
  shows "\<exists>d. readConfigEntity env k w = Resolved d"
proof (cases "readConfigEntities env w")
  case (Rejected error)
  with out show ?thesis
    by (simp add: exportConfigEntities_when_listing_fails split: completion.splits)
next
  case (Resolved configurations)
  with out have "exportData =
      insert_results (map (\<lambda>c. fst (entityPromise env w c)) configurations)
        (createConfigEntityExportTemplate env)"
    by (simp add: exportConfigEntities_when_listed)
  with key have "k \<in> set (Object_keys (idm (createConfigEntityExportTemplate env))) \<union>
      ident ` {d. Some d \<in> set (map (\<lambda>c. fst (entityPromise env w c)) configurations)}"
    by (simp only: insert_results_keys)
  moreover have "set (Object_keys (idm (createConfigEntityExportTemplate env))) = {}"
    by (simp add: createConfigEntityExportTemplate_def Object_keys_def)
  ultimately obtain d c where "k = ident d" and "fst (entityPromise env w c) = Some d"
    by auto
  then have k: "k = ident d" and r: "readConfigEntity env (ident c) w = Resolved d"
    by (simp_all add: entityPromise_result)
  from r have "api_getConfigEntity env (ident c) w = Resolved d"
    by (simp add: readConfigEntity_cases split: promise.splits)
  with consistent have "ident d = ident c" by blast
  with k r show ?thesis by auto
qed

lemma exported_lookup:
  assumes consistent: "\<forall>k d. api_getConfigEntity env k w = Resolved d \<longrightarrow> ident d = k"
    and listed: "readConfigEntities env w = Resolved configurations"
    and c: "c \<in> set configurations"
    and d: "readConfigEntity env (ident c) w = Resolved d"
  shows "map_of (idm (insert_results (map (\<lambda>c. fst (entityPromise env w c)) configurations)
            (createConfigEntityExportTemplate env))) (ident c) = Some d"
proof -
  let ?results = "map (\<lambda>c. fst (entityPromise env w c)) configurations"
  let ?g = "\<lambda>k. case readConfigEntity env k w of Resolved d \<Rightarrow> Some d | Rejected e \<Rightarrow> None"
  have g: "?g (ident d') = Some d'" if "Some d' \<in> set ?results" for d'
  proof -
    from that obtain c' where "fst (entityPromise env w c') = Some d'" by auto
    then have r: "readConfigEntity env (ident c') w = Resolved d'"
      by (simp add: entityPromise_result)
    then have "api_getConfigEntity env (ident c') w = Resolved d'"
      by (simp add: readConfigEntity_cases split: promise.splits)
    with consistent have "ident d' = ident c'" by blast
    with r show ?thesis by simp
  qed
  from d have "fst (entityPromise env w c) = Some d" by (simp add: entityPromise_result)
  with c have in_results: "Some d \<in> set ?results" by force
  from d have "api_getConfigEntity env (ident c) w = Resolved d"
    by (simp add: readConfigEntity_cases split: promise.splits)
  with consistent have same: "ident d = ident c" by blast
  from in_results have "ident d \<in> ident ` {d. Some d \<in> set ?results}" by blast
  then have "ident c \<in> ident ` {d. Some d \<in> set ?results}" by (simp only: same)
  with insert_results_lookup [of ?results ?g "createConfigEntityExportTemplate env" "ident c", OF g]
    d show ?thesis by simp
qed

section \<open>Claims\<close>

text \<open>
  C1. When the listing succeeds, \<^verbatim>\<open>exportConfigEntities\<close> resolves to a bundle whatever
  the reads of the entities answer: no per-entity failure makes it reject. When the
  listing call fails, the export is aborted and no bundle is produced, but the wrapped
  listing error is not thrown to the caller: the \<^verbatim>\<open>catch\<close> clause hands it to
  \<^verbatim>\<open>printError\<close>, called without the state, and what the caller gets is decided by that
  call alone. The promise resolves to \<^verbatim>\<open>undefined\<close> if the call returns and rejects with
  what the call threw if it throws; the caller sees the listing error only if
  \<^verbatim>\<open>printError\<close> itself throws it.
\<close>

theorem exportConfigEntities_listing_failure:
  "(\<forall>configurations. readConfigEntities env w = Resolved configurations \<longrightarrow>
      (\<exists>exportData. fst (exportConfigEntities env w) = Resolved (Some exportData))) \<and>
   (\<forall>e. api_getConfigEntities env w = Rejected e \<longrightarrow>
      exportConfigEntities env w =
        ((case printError env (FrodoError ''Error reading config entities'' [e]) of
            Normal u \<Rightarrow> Resolved None
          | Throw thrown \<Rightarrow> Rejected thrown),
         [PrintError (FrodoError ''Error reading config entities'' [e])]) \<and>
      (\<forall>exportData. fst (exportConfigEntities env w) \<noteq> Resolved (Some exportData)) \<and>
      (fst (exportConfigEntities env w) =
           Rejected (FrodoError ''Error reading config entities'' [e]) \<longrightarrow>
         printError env (FrodoError ''Error reading config entities'' [e]) =
           Throw (FrodoError ''Error reading config entities'' [e])))"
proof (intro conjI allI impI)
  fix configurations
  assume "readConfigEntities env w = Resolved configurations"
  then show "\<exists>exportData. fst (exportConfigEntities env w) = Resolved (Some exportData)"
    by (simp add: exportConfigEntities_when_listed)
next
  fix e
  assume "api_getConfigEntities env w = Rejected e"
  then have failed: "readConfigEntities env w =
      Rejected (FrodoError ''Error reading config entities'' [e])"
    by (simp add: readConfigEntities_cases)
  show run: "exportConfigEntities env w =
        ((case printError env (FrodoError ''Error reading config entities'' [e]) of
            Normal u \<Rightarrow> Resolved None
          | Throw thrown \<Rightarrow> Rejected thrown),
         [PrintError (FrodoError ''Error reading config entities'' [e])])"
    by (rule exportConfigEntities_when_listing_fails [OF failed])
  show "fst (exportConfigEntities env w) \<noteq> Resolved (Some exportData)" for exportData
    by (simp add: run split: completion.splits)
  show "printError env (FrodoError ''Error reading config entities'' [e]) =
           Throw (FrodoError ''Error reading config entities'' [e])"
    if "fst (exportConfigEntities env w) =
           Rejected (FrodoError ''Error reading config entities'' [e])"
    using that by (simp add: run split: completion.splits)
qed

theorem exportConfigEntities_listing_failure_witness:
  "exportConfigEntities (store_env listing_faults ''cloud'' no_hooks example_metadata)
       example_store =
     (Rejected (TypeError no_state),
      [PrintError (FrodoError ''Error reading config entities'' [server_error])]) \<and>
   exportConfigEntities
       ((store_env listing_faults ''cloud'' no_hooks example_metadata)
          \<lparr>printError := (\<lambda>error. Normal ())\<rparr>)
       example_store =
     (Resolved None,
      [PrintError (FrodoError ''Error reading config entities'' [server_error])])"
  using
    exportConfigEntities_listing_failure
      [of "store_env listing_faults ''cloud'' no_hooks example_metadata" example_store]
    exportConfigEntities_listing_failure
      [of "(store_env listing_faults ''cloud'' no_hooks example_metadata)
             \<lparr>printError := (\<lambda>error. Normal ())\<rparr>" example_store]
  by (simp add: store_env_def listing_faults_def no_faults_def)

text \<open>
  C2. \<^verbatim>\<open>importConfigEntities\<close> attempts every id of the bundle, whatever happened to the
  ids before it: each key of the bundle is announced in the debug log, and the attempts
  are one per key, in the order of the keys. If at least one attempt recorded a failure
  the call rejects with a \<^verbatim>\<open>FrodoError\<close> that wraps the array of all recorded failures,
  in order; if none did, it resolves to exactly the answers of the successful upserts.
\<close>

theorem importConfigEntities_attempts_all:
  "(\<forall>entityId \<in> set (Object_keys (idm importData)).
      DebugMessage (''IdmConfigOps.importConfigEntities: '' @ entityId)
        \<in> set (fst (snd (importConfigEntities env importData options w)))) \<and>
   (case spec_importAll env importData options (Object_keys (idm importData)) w of
      (as, w') \<Rightarrow>
        map fst as = Object_keys (idm importData) \<and>
        fst (importConfigEntities env importData options w) =
          (if concat (map recorded as) = []
           then Resolved (concat (map applied as))
           else Rejected (FrodoError ''Error importing config entities''
                  (concat (map recorded as)))) \<and>
        snd (snd (importConfigEntities env importData options w)) = w')"
proof (intro conjI ballI)
  fix entityId
  assume "entityId \<in> set (Object_keys (idm importData))"
  then obtain a where
    "(entityId, a) \<in> set (fst (spec_importAll env importData options
        (Object_keys (idm importData)) w))"
    using attempts_cover_keys
      [where k = entityId and env = env and importData = importData and options = options
         and w = w] by blast
  then have "DebugMessage (''IdmConfigOps.importConfigEntities: '' @ entityId)
      \<in> set (concat (map (events_of importData)
           (fst (spec_importAll env importData options (Object_keys (idm importData)) w))))"
    by (rule Debug_in_events)
  then show "DebugMessage (''IdmConfigOps.importConfigEntities: '' @ entityId)
      \<in> set (fst (snd (importConfigEntities env importData options w)))"
    by (simp add: importConfigEntities_spec Let_def split_beta)
next
  show "case spec_importAll env importData options (Object_keys (idm importData)) w of
      (as, w') \<Rightarrow>
        map fst as = Object_keys (idm importData) \<and>
        fst (importConfigEntities env importData options w) =
          (if concat (map recorded as) = []
           then Resolved (concat (map applied as))
           else Rejected (FrodoError ''Error importing config entities''
                  (concat (map recorded as)))) \<and>
        snd (snd (importConfigEntities env importData options w)) = w'"
    using spec_importAll_keys [of env importData options "Object_keys (idm importData)" w]
    by (simp add: importConfigEntities_spec Let_def split_beta)
qed

theorem importConfigEntities_attempts_all_witness:
  "fst (importConfigEntities (store_env import_faults ''cloud'' no_hooks example_metadata)
          import_bundle \<lparr>validate = False\<rparr> example_store) =
     Rejected (FrodoError ''Error importing config entities''
       [update_error ''managed'' server_error]) \<and>
   DebugMessage ''IdmConfigOps.importConfigEntities: sync''
     \<in> set (fst (snd (importConfigEntities
           (store_env import_faults ''cloud'' no_hooks example_metadata)
           import_bundle \<lparr>validate = False\<rparr> example_store))) \<and>
   map_of (snd (snd (importConfigEntities
           (store_env import_faults ''cloud'' no_hooks example_metadata)
           import_bundle \<lparr>validate = False\<rparr> example_store))) ''sync'' = Some (entity ''sync'')"
  using importConfigEntities_attempts_all
    [of import_bundle "store_env import_faults ''cloud'' no_hooks example_metadata"
        "\<lparr>validate = False\<rparr>" example_store]
  by (simp add: import_bundle_def bundle_of_def Object_keys_def store_env_def import_faults_def
        no_faults_def spec_importOne_def protected_conflict_def update_error_def
        CLOUD_DEPLOYMENT_TYPE_KEY_def AIC_PROTECTED_ENTITIES_def forbidden_def server_error_def
        entity_def example_store_def)

text \<open>
  C3. A failure of the listing call is fatal at once in both \<^verbatim>\<open>deleteConfigEntities\<close>
  and \<^verbatim>\<open>deleteConfigEntitiesByType\<close>: no delete is sent, the store is left as it was, and
  the call rejects with a \<^verbatim>\<open>FrodoError\<close> that wraps one error, the wrapped failure of the
  listing, and no failure of a delete. When the listing succeeds, both send one delete
  per listed id, in order, whatever the earlier deletes answered; if any delete was
  rejected they reject with one \<^verbatim>\<open>FrodoError\<close> over the array of all rejections, in
  order, and otherwise they resolve to the list of the deleted entities.
\<close>

theorem delete_operations_failures:
  "(\<forall>e. api_getConfigStubs env w = Rejected e \<longrightarrow>
      deleteConfigEntities env w =
        (Rejected (FrodoError ''Error deleting config entities''
           [FrodoError ''Error reading config entity stubs'' [e]]),
         [DebugMessage ''IdmConfigOps.deleteConfigEntities: start''], w)) \<and>
   (\<forall>e. api_getConfigEntitiesByType env type w = Rejected e \<longrightarrow>
      deleteConfigEntitiesByType env type w =
        (Rejected (FrodoError ''Error deleting config entities by type''
           [(FrodoError ''Error reading config entities by type'' [e])]),
         [DebugMessage ''IdmConfigOps.deleteConfigEntitiesByType: start''], w)) \<and>
   (\<forall>stubs. api_getConfigStubs env w = Resolved stubs \<longrightarrow>
      (case spec_deleteAll env (map ident stubs) w of
         (ds, w') \<Rightarrow>
           map fst ds = map ident stubs \<and>
           delete_requests (fst (snd (deleteConfigEntities env w))) = ds \<and>
           fst (deleteConfigEntities env w) =
             (if concat (map failed ds) = []
              then Resolved (concat (map deleted ds))
              else Rejected (FrodoError ''Error deleting config entities''
                     (concat (map failed ds)))) \<and>
           snd (snd (deleteConfigEntities env w)) = w')) \<and>
   (\<forall>configEntities. api_getConfigEntitiesByType env type w = Resolved configEntities \<longrightarrow>
      (case spec_deleteAll env (map ident configEntities) w of
         (ds, w') \<Rightarrow>
           map fst ds = map ident configEntities \<and>
           delete_requests (fst (snd (deleteConfigEntitiesByType env type w))) = ds \<and>
           fst (deleteConfigEntitiesByType env type w) =
             (if concat (map failed ds) = []
              then Resolved (concat (map deleted ds))
              else Rejected (FrodoError ''Error deleting config entities by type''
                     (concat (map failed ds)))) \<and>
           snd (snd (deleteConfigEntitiesByType env type w)) = w'))"
proof (intro conjI allI impI)
  fix e
  assume "api_getConfigStubs env w = Rejected e"
  then show "deleteConfigEntities env w =
        (Rejected (FrodoError ''Error deleting config entities''
           [FrodoError ''Error reading config entity stubs'' [e]]),
         [DebugMessage ''IdmConfigOps.deleteConfigEntities: start''], w)"
    by (rule deleteConfigEntities_when_listing_fails)
next
  fix e
  assume "api_getConfigEntitiesByType env type w = Rejected e"
  then show "deleteConfigEntitiesByType env type w =
        (Rejected (FrodoError ''Error deleting config entities by type''
           [(FrodoError ''Error reading config entities by type'' [e])]),
         [DebugMessage ''IdmConfigOps.deleteConfigEntitiesByType: start''], w)"
    by (rule deleteConfigEntitiesByType_when_listing_fails)
next
  fix stubs
  assume "api_getConfigStubs env w = Resolved stubs"
  then show "case spec_deleteAll env (map ident stubs) w of
         (ds, w') \<Rightarrow>
           map fst ds = map ident stubs \<and>
           delete_requests (fst (snd (deleteConfigEntities env w))) = ds \<and>
           fst (deleteConfigEntities env w) =
             (if concat (map failed ds) = []
              then Resolved (concat (map deleted ds))
              else Rejected (FrodoError ''Error deleting config entities''
                     (concat (map failed ds)))) \<and>
           snd (snd (deleteConfigEntities env w)) = w'"
    using spec_deleteAll_keys [of env "map ident stubs" w]
    by (simp add: deleteConfigEntities_spec Let_def split_beta delete_requests_append
          delete_requests_events)
next
  fix configEntities
  assume "api_getConfigEntitiesByType env type w = Resolved configEntities"
  then show "case spec_deleteAll env (map ident configEntities) w of
         (ds, w') \<Rightarrow>
           map fst ds = map ident configEntities \<and>
           delete_requests (fst (snd (deleteConfigEntitiesByType env type w))) = ds \<and>
           fst (deleteConfigEntitiesByType env type w) =
             (if concat (map failed ds) = []
              then Resolved (concat (map deleted ds))
              else Rejected (FrodoError ''Error deleting config entities by type''
                     (concat (map failed ds)))) \<and>
           snd (snd (deleteConfigEntitiesByType env type w)) = w'"
    using spec_deleteAll_keys [of env "map ident configEntities" w]
    by (simp add: deleteConfigEntitiesByType_spec Let_def split_beta delete_requests_append
          delete_requests_events)
qed

theorem delete_operations_failures_witness:
  "deleteConfigEntities (store_env listing_faults ''cloud'' no_hooks example_metadata)
       script_store =
     (Rejected (FrodoError ''Error deleting config entities''
        [FrodoError ''Error reading config entity stubs'' [server_error]]),
      [DebugMessage ''IdmConfigOps.deleteConfigEntities: start''], script_store) \<and>
   deleteConfigEntitiesByType (store_env listing_faults ''cloud'' no_hooks example_metadata)
       ''script'' script_store =
     (Rejected (FrodoError ''Error deleting config entities by type''
        [(FrodoError ''Error reading config entities by type'' [server_error])]),
      [DebugMessage ''IdmConfigOps.deleteConfigEntitiesByType: start''], script_store) \<and>
   fst (deleteConfigEntitiesByType (store_env script_faults ''cloud'' no_hooks example_metadata)
       ''script'' script_store) =
     Rejected (FrodoError ''Error deleting config entities by type'' [server_error]) \<and>
   delete_requests (fst (snd (deleteConfigEntitiesByType
       (store_env script_faults ''cloud'' no_hooks example_metadata) ''script'' script_store))) =
     [(''script/a'', Resolved (entity ''script/a'')), (''script/b'', Rejected server_error),
      (''script/c'', Resolved (entity ''script/c''))] \<and>
   snd (snd (deleteConfigEntitiesByType
       (store_env script_faults ''cloud'' no_hooks example_metadata) ''script'' script_store)) =
     [(''script/b'', entity ''script/b''), (''managed'', entity ''managed'')] \<and>
   fst (deleteConfigEntities (store_env script_faults ''cloud'' no_hooks example_metadata)
       script_store) =
     Rejected (FrodoError ''Error deleting config entities'' [server_error]) \<and>
   deleteConfigEntities (store_env no_faults ''cloud'' no_hooks example_metadata)
       [(''managed'', entity ''managed'')] =
     (Resolved [entity ''managed''],
      [DebugMessage ''IdmConfigOps.deleteConfigEntities: start'',
       DebugMessage (''IdmConfigOps.deleteConfigEntities: '' @ [CHR 0x27] @ ''managed'' @ [CHR 0x27]),
       Delete ''managed'' (Resolved (entity ''managed'')),
       DebugMessage ''IdmConfigOps.deleteConfigEntities: end''], [])"
  using
    delete_operations_failures
      [of "store_env listing_faults ''cloud'' no_hooks example_metadata" script_store "''script''"]
    delete_operations_failures
      [of "store_env script_faults ''cloud'' no_hooks example_metadata" script_store "''script''"]
    delete_operations_failures
      [of "store_env no_faults ''cloud'' no_hooks example_metadata"
          "[(''managed'', entity ''managed'')]" "''script''"]
  by (simp add: store_env_def listing_faults_def script_faults_def no_faults_def
        script_store_def entity_def server_error_def
        deleteConfigEntities_spec delete_events_def)

text \<open>
  C4. The summary that ends the progress indicator of \<^verbatim>\<open>exportConfigEntities\<close>,
  ``Exported n config entities.'', is written with the length of the working set. In the
  store below the read of one of two listed entities fails: one entity is exported and
  the summary says two.
\<close>

theorem exportConfigEntities_summary:
  "\<forall>configurations. readConfigEntities env w = Resolved configurations \<longrightarrow>
     last (snd (exportConfigEntities env w)) =
       StopProgressIndicator (Exported_config_entities (length configurations)) ''success''"
  by (simp add: exportConfigEntities_when_listed)

theorem exportConfigEntities_summary_witness:
  "last (snd (exportConfigEntities (store_env export_faults ''cloud'' no_hooks example_metadata)
       [(''authentication'', entity ''authentication''), (''managed'', entity ''managed'')])) =
     StopProgressIndicator (Exported_config_entities 2) ''success'' \<and>
   fst (exportConfigEntities (store_env export_faults ''cloud'' no_hooks example_metadata)
       [(''authentication'', entity ''authentication''), (''managed'', entity ''managed'')]) =
     Resolved (Some \<lparr>meta = Some example_metadata,
                      idm = [(''authentication'', entity ''authentication'')]\<rparr>)"
proof -
  let ?env = "store_env export_faults ''cloud'' no_hooks example_metadata"
  let ?w = "[(''authentication'', entity ''authentication''), (''managed'', entity ''managed'')]"
  have listed: "readConfigEntities ?env ?w =
      Resolved [entity ''authentication'', entity ''managed'']"
    by (simp add: readConfigEntities_cases store_env_def export_faults_def no_faults_def)
  have exported: "fst (exportConfigEntities ?env ?w) =
     Resolved (Some \<lparr>meta = Some example_metadata,
                      idm = [(''authentication'', entity ''authentication'')]\<rparr>)"
    by (simp add: exportConfigEntities_def readConfigEntities_cases readConfigEntity_cases
          entityPromise_def store_env_def export_faults_def no_faults_def entity_def
          createConfigEntityExportTemplate_def)
  from exportConfigEntities_summary [of ?env ?w] listed exported
  show ?thesis by simp
qed

text \<open>
  C5. Let an id of \<^verbatim>\<open>IDM_UNAVAILABLE_ENTITIES\<close> fail its read with status 404 and reason
  ``Not Found'', against a store that answers a read of an id with the document of that
  id. Then \<^verbatim>\<open>exportConfigEntities\<close> does not reject on its account: once the listing has
  succeeded the export resolves to a bundle, and the only way the call rejects at all is
  \<^verbatim>\<open>printError\<close> throwing after a failed listing. The bundle, when there is one, has no
  entry for the id; and neither of the two messages of type \<^verbatim>\<open>error\<close> that report an
  unclassified failure is printed for it.
\<close>

theorem exportConfigEntities_unavailable_suppressed:
  assumes unavailable: "entityId \<in> set IDM_UNAVAILABLE_ENTITIES"
    and fails: "readConfigEntity env entityId w = Rejected error"
    and status: "httpStatus error = Some 404"
    and reason: "httpErrorReason error = Some ''Not Found''"
    and consistent: "\<forall>k d. api_getConfigEntity env k w = Resolved d \<longrightarrow> ident d = k"
  shows "(\<forall>configurations. readConfigEntities env w = Resolved configurations \<longrightarrow>
            (\<exists>exportData. fst (exportConfigEntities env w) = Resolved (Some exportData))) \<and>
         (\<forall>thrown. fst (exportConfigEntities env w) = Rejected thrown \<longrightarrow>
            (\<exists>listing. readConfigEntities env w = Rejected listing \<and>
                       printError env listing = Throw thrown)) \<and>
         (\<forall>exportData. fst (exportConfigEntities env w) = Resolved (Some exportData) \<longrightarrow>
            entityId \<notin> set (Object_keys (idm exportData))) \<and>
         readConfigEntityError_handler entityId error = [] \<and>
         PrintMessage (Response_data error) ''error''
           \<notin> set (snd (exportConfigEntities env w)) \<and>
         (\<forall>e. PrintMessage (Error_getting_config_entity entityId e) ''error''
           \<notin> set (snd (exportConfigEntities env w)))"
proof -
  have resolves: "\<exists>exportData. fst (exportConfigEntities env w) = Resolved (Some exportData)"
    if "readConfigEntities env w = Resolved configurations" for configurations
    using that by (simp add: exportConfigEntities_when_listed)
  have rejects: "\<exists>listing. readConfigEntities env w = Rejected listing \<and>
      printError env listing = Throw thrown"
    if "fst (exportConfigEntities env w) = Rejected thrown" for thrown
    using that
    by (cases "readConfigEntities env w")
       (simp_all add: exportConfigEntities_when_listing_fails exportConfigEntities_when_listed
          split: completion.splits)
  have omitted: "entityId \<notin> set (Object_keys (idm exportData))"
    if "fst (exportConfigEntities env w) = Resolved (Some exportData)" for exportData
  proof
    assume "entityId \<in> set (Object_keys (idm exportData))"
    from exported_keys [OF consistent that this] fails show False by simp
  qed
  have quiet: "readConfigEntityError_handler entityId error = []"
    using unavailable status reason by (simp add: readConfigEntityError_handler_def)
  have wrapped: "\<exists>raw. e = FrodoError (''Error reading config entity '' @ k) [raw]"
    if "readConfigEntity env k w = Rejected e" for k e
    using that by (auto simp: readConfigEntity_cases split: promise.splits)
  have silent: False
    if "PrintMessage m ''error'' \<in> set (snd (exportConfigEntities env w))"
      and "m = Response_data error \<or> m = Error_getting_config_entity entityId e" for m e
  proof -
    from PrintMessage_in_export [OF that(1)] obtain k e' where
      k: "readConfigEntity env k w = Rejected e'"
      and m: "PrintMessage m ''error'' \<in> set (readConfigEntityError_handler k e')" by blast
    from handler_messages [OF m] that(2)
    have "e' = error \<or> k = entityId" by auto
    moreover from wrapped [OF k] wrapped [OF fails] have "e' = error \<longrightarrow> k = entityId" by auto
    ultimately have "k = entityId" by blast
    with k fails have "e' = error" by simp
    with \<open>k = entityId\<close> m quiet show False by simp
  qed
  from resolves rejects omitted quiet silent show ?thesis by blast
qed

theorem exportConfigEntities_unavailable_suppressed_witness:
  "exportConfigEntities (store_env export_faults ''cloud'' no_hooks example_metadata)
       [(''authentication'', entity ''authentication''), (''script'', entity ''script'')] =
     (Resolved (Some \<lparr>meta = Some example_metadata,
                       idm = [(''authentication'', entity ''authentication'')]\<rparr>),
      [CreateProgressIndicator 2 Exporting_config_entities,
       UpdateProgressIndicator (Exporting_config_entity ''authentication''),
       UpdateProgressIndicator (Exporting_config_entity ''script''),
       StopProgressIndicator (Exported_config_entities 2) ''success''])"
proof -
  let ?env = "store_env export_faults ''cloud'' no_hooks example_metadata"
  let ?w = "[(''authentication'', entity ''authentication''), (''script'', entity ''script'')]"
  let ?error = "FrodoError ''Error reading config entity script'' [not_found]"
  have unavailable: "''script'' \<in> set IDM_UNAVAILABLE_ENTITIES"
    by (simp add: IDM_UNAVAILABLE_ENTITIES_def)
  have fails: "readConfigEntity ?env ''script'' ?w = Rejected ?error"
    by (simp add: readConfigEntity_cases store_env_def export_faults_def)
  have status: "httpStatus ?error = Some 404" by (simp add: not_found_def)
  have reason: "httpErrorReason ?error = Some ''Not Found''" by (simp add: not_found_def)
  have consistent: "\<forall>k d. api_getConfigEntity ?env k ?w = Resolved d \<longrightarrow> ident d = k"
    by (simp add: store_env_def export_faults_def no_faults_def entity_def)
  have run: "exportConfigEntities ?env ?w =
     (Resolved (Some \<lparr>meta = Some example_metadata,
                       idm = [(''authentication'', entity ''authentication'')]\<rparr>),
      [CreateProgressIndicator 2 Exporting_config_entities,
       UpdateProgressIndicator (Exporting_config_entity ''authentication''),
       UpdateProgressIndicator (Exporting_config_entity ''script''),
       StopProgressIndicator (Exported_config_entities 2) ''success''])"
    by (simp add: exportConfigEntities_def readConfigEntities_cases readConfigEntity_cases
          entityPromise_def readConfigEntityError_handler_def store_env_def export_faults_def
          no_faults_def entity_def not_found_def IDM_UNAVAILABLE_ENTITIES_def
          createConfigEntityExportTemplate_def)
  from exportConfigEntities_unavailable_suppressed
    [OF unavailable fails status reason consistent] run
  show ?thesis by simp
qed

text \<open>
  C6, as stated, fails: the third exception of the handler passes over a 404 whose
  message names the legacy file-install configuration, whatever the id is. The id
  \<open>fileinstall\<close> is not in \<^verbatim>\<open>IDM_UNAVAILABLE_ENTITIES\<close>, its read fails with status 404, and
  nothing of type \<^verbatim>\<open>error\<close> is printed.
\<close>

theorem exportConfigEntities_not_found_counterexample:
  "''fileinstall'' \<notin> set IDM_UNAVAILABLE_ENTITIES \<and>
   readConfigEntity (store_env export_faults ''cloud'' no_hooks example_metadata) ''fileinstall''
       [(''authentication'', entity ''authentication''), (''fileinstall'', entity ''fileinstall'')] =
     Rejected (FrodoError ''Error reading config entity fileinstall'' [legacy_not_found]) \<and>
   httpStatus (FrodoError ''Error reading config entity fileinstall'' [legacy_not_found]) =
     Some 404 \<and>
   snd (exportConfigEntities (store_env export_faults ''cloud'' no_hooks example_metadata)
       [(''authentication'', entity ''authentication''), (''fileinstall'', entity ''fileinstall'')]) =
     [CreateProgressIndicator 2 Exporting_config_entities,
      UpdateProgressIndicator (Exporting_config_entity ''authentication''),
      UpdateProgressIndicator (Exporting_config_entity ''fileinstall''),
      StopProgressIndicator (Exported_config_entities 2) ''success'']"
  by (simp add: exportConfigEntities_def readConfigEntities_cases readConfigEntity_cases
        entityPromise_def readConfigEntityError_handler_def store_env_def export_faults_def
        no_faults_def entity_def legacy_not_found_def IDM_UNAVAILABLE_ENTITIES_def
        createConfigEntityExportTemplate_def)

text \<open>
  C6, amended. Let an id that is not in \<^verbatim>\<open>IDM_UNAVAILABLE_ENTITIES\<close> be in the working set
  and fail its read with status 404 and a message other than the one of the legacy
  file-install configuration, against a store that answers a read of an id with the
  document of that id. Then the export still resolves to a bundle, which has no entry
  for the id and has the document of every listed entity whose read succeeded, and both
  messages of type \<^verbatim>\<open>error\<close> are printed for the failure.
\<close>

theorem exportConfigEntities_not_found_logged:
  assumes not_listed: "entityId \<notin> set IDM_UNAVAILABLE_ENTITIES"
    and listed: "readConfigEntities env w = Resolved configurations"
    and member: "entityId \<in> ident ` set configurations"
    and fails: "readConfigEntity env entityId w = Rejected error"
    and status: "httpStatus error = Some 404"
    and message: "httpMessage error \<noteq>
        Some ''No configuration exists for id org.apache.felix.fileinstall/openidm''"
    and consistent: "\<forall>k d. api_getConfigEntity env k w = Resolved d \<longrightarrow> ident d = k"
  shows "(\<exists>exportData.
            fst (exportConfigEntities env w) = Resolved (Some exportData) \<and>
            entityId \<notin> set (Object_keys (idm exportData)) \<and>
            (\<forall>c \<in> set configurations. \<forall>d.
               readConfigEntity env (ident c) w = Resolved d \<longrightarrow>
                 map_of (idm exportData) (ident c) = Some d)) \<and>
         PrintMessage (Response_data error) ''error''
           \<in> set (snd (exportConfigEntities env w)) \<and>
         PrintMessage (Error_getting_config_entity entityId error) ''error''
           \<in> set (snd (exportConfigEntities env w))"
proof -
  let ?exportData = "insert_results (map (\<lambda>c. fst (entityPromise env w c)) configurations)
      (createConfigEntityExportTemplate env)"
  have out: "fst (exportConfigEntities env w) = Resolved (Some ?exportData)"
    by (simp add: exportConfigEntities_when_listed [OF listed])
  have omitted: "entityId \<notin> set (Object_keys (idm ?exportData))"
  proof
    assume "entityId \<in> set (Object_keys (idm ?exportData))"
    from exported_keys [OF consistent out this] fails show False by simp
  qed
  have rest: "\<forall>c \<in> set configurations. \<forall>d.
      readConfigEntity env (ident c) w = Resolved d \<longrightarrow>
        map_of (idm ?exportData) (ident c) = Some d"
    using exported_lookup [OF consistent listed] by blast
  have handler: "readConfigEntityError_handler entityId error =
      [PrintMessage (Response_data error) ''error'',
       PrintMessage (Error_getting_config_entity entityId error) ''error'']"
    using not_listed status message by (simp add: readConfigEntityError_handler_def)
  from member obtain c where c: "c \<in> set configurations" and id: "ident c = entityId" by auto
  from fails id have "snd (entityPromise env w c) =
      [PrintMessage (Response_data error) ''error'',
       PrintMessage (Error_getting_config_entity entityId error) ''error'']"
    by (simp add: entityPromise_def handler)
  with c have "set [PrintMessage (Response_data error) ''error'',
       PrintMessage (Error_getting_config_entity entityId error) ''error'']
      \<subseteq> set (concat (map (\<lambda>c. snd (entityPromise env w c)) configurations))"
    by (metis (no_types, lifting) UN_I image_eqI set_concat set_map subsetI)
  then have printed: "set [PrintMessage (Response_data error) ''error'',
       PrintMessage (Error_getting_config_entity entityId error) ''error'']
      \<subseteq> set (snd (exportConfigEntities env w))"
    by (auto simp: exportConfigEntities_when_listed [OF listed])
  from out omitted rest printed show ?thesis by auto
qed

theorem exportConfigEntities_not_found_logged_witness:
  "exportConfigEntities (store_env export_faults ''cloud'' no_hooks example_metadata)
       [(''sync'', entity ''sync''), (''authentication'', entity ''authentication'')] =
     (Resolved (Some \<lparr>meta = Some example_metadata,
                       idm = [(''authentication'', entity ''authentication'')]\<rparr>),
      [CreateProgressIndicator 2 Exporting_config_entities,
       UpdateProgressIndicator (Exporting_config_entity ''sync''),
       UpdateProgressIndicator (Exporting_config_entity ''authentication''),
       PrintMessage (Response_data
         (FrodoError ''Error reading config entity sync'' [not_found])) ''error'',
       PrintMessage (Error_getting_config_entity ''sync''
         (FrodoError ''Error reading config entity sync'' [not_found])) ''error'',
       StopProgressIndicator (Exported_config_entities 2) ''success''])"
proof -
  let ?env = "store_env export_faults ''cloud'' no_hooks example_metadata"
  let ?w = "[(''sync'', entity ''sync''), (''authentication'', entity ''authentication'')]"
  let ?error = "FrodoError ''Error reading config entity sync'' [not_found]"
  have not_listed: "''sync'' \<notin> set IDM_UNAVAILABLE_ENTITIES"
    by (simp add: IDM_UNAVAILABLE_ENTITIES_def)
  have listed: "readConfigEntities ?env ?w =
      Resolved [entity ''sync'', entity ''authentication'']"
    by (simp add: readConfigEntities_cases store_env_def export_faults_def no_faults_def)
  have member: "''sync'' \<in> ident ` set [entity ''sync'', entity ''authentication'']"
    by (simp add: entity_def)
  have fails: "readConfigEntity ?env ''sync'' ?w = Rejected ?error"
    by (simp add: readConfigEntity_cases store_env_def export_faults_def)
  have status: "httpStatus ?error = Some 404" by (simp add: not_found_def)
  have message: "httpMessage ?error \<noteq>
      Some ''No configuration exists for id org.apache.felix.fileinstall/openidm''"
    by (simp add: not_found_def)
  have consistent: "\<forall>k d. api_getConfigEntity ?env k ?w = Resolved d \<longrightarrow> ident d = k"
    by (simp add: store_env_def export_faults_def no_faults_def entity_def)
  have run: "exportConfigEntities ?env ?w =
     (Resolved (Some \<lparr>meta = Some example_metadata,
                       idm = [(''authentication'', entity ''authentication'')]\<rparr>),
      [CreateProgressIndicator 2 Exporting_config_entities,
       UpdateProgressIndicator (Exporting_config_entity ''sync''),
       UpdateProgressIndicator (Exporting_config_entity ''authentication''),
       PrintMessage (Response_data ?error) ''error'',
       PrintMessage (Error_getting_config_entity ''sync'' ?error) ''error'',
       StopProgressIndicator (Exported_config_entities 2) ''success''])"
    by (simp add: exportConfigEntities_def readConfigEntities_cases readConfigEntity_cases
          entityPromise_def readConfigEntityError_handler_def store_env_def export_faults_def
          no_faults_def entity_def not_found_def IDM_UNAVAILABLE_ENTITIES_def
          createConfigEntityExportTemplate_def)
  from exportConfigEntities_not_found_logged
    [OF not_listed listed member fails status message consistent] run
  show ?thesis by simp
qed

text \<open>
  C7. In the cloud deployment, let an id of the protected set have its upsert refused with
  status 403 and code \<^verbatim>\<open>ERR_BAD_REQUEST\<close>. In any batch, whatever else fails in it: the
  round of the loop for that id records nothing, neither in \<^verbatim>\<open>errors\<close> nor in the
  result, and the loop goes on with the remaining ids; the refusal is never among the
  errors the call wraps when it rejects; and every id of the bundle is announced and
  then either fails validation or is sent to the store. When these refusals are the only
  failures of the batch (every other upsert is accepted and no entity fails validation),
  the call resolves to the answers of the accepted upserts, and every id other than the
  protected one is among the entities returned.
\<close>

theorem importConfigEntities_protected_suppressed:
  assumes cloud: "getDeploymentType env = CLOUD_DEPLOYMENT_TYPE_KEY"
    and prot: "entityId \<in> set AIC_PROTECTED_ENTITIES"
  shows
    "(\<forall>e b rest w'.
        httpStatus (FrodoError (''Error updating config entity '' @ entityId) [e]) = Some 403 \<and>
        httpCode (FrodoError (''Error updating config entity '' @ entityId) [e]) =
          Some ''ERR_BAD_REQUEST'' \<and>
        \<not> (validate options \<and>
             \<not> areScriptHooksValid env (the (map_of (idm importData) entityId))) \<and>
        api_putConfigEntity env entityId (the (map_of (idm importData) entityId)) False
          (world b) = (Rejected e, w') \<longrightarrow>
        importConfigEntities_loop env importData options (entityId # rest) b =
          importConfigEntities_loop env importData options rest
            (b\<lparr>trace := trace b @
                 [DebugMessage (''IdmConfigOps.importConfigEntities: '' @ entityId),
                  Put entityId (the (map_of (idm importData) entityId)) (Rejected e)],
               world := w'\<rparr>)) \<and>
     (\<forall>e errs.
        httpStatus (FrodoError (''Error updating config entity '' @ entityId) [e]) = Some 403 \<and>
        httpCode (FrodoError (''Error updating config entity '' @ entityId) [e]) =
          Some ''ERR_BAD_REQUEST'' \<and>
        fst (importConfigEntities env importData options w) =
          Rejected (FrodoError ''Error importing config entities'' errs) \<longrightarrow>
        FrodoError (''Error updating config entity '' @ entityId) [e] \<notin> set errs) \<and>
     (\<forall>k \<in> set (Object_keys (idm importData)).
        DebugMessage (''IdmConfigOps.importConfigEntities: '' @ k)
          \<in> set (fst (snd (importConfigEntities env importData options w))) \<and>
        (validate options \<and> \<not> areScriptHooksValid env (the (map_of (idm importData) k)) \<or>
         (\<exists>p. Put k (the (map_of (idm importData) k)) p
                \<in> set (fst (snd (importConfigEntities env importData options w)))))) \<and>
     ((\<forall>k \<in> set (Object_keys (idm importData)).
         validate options \<longrightarrow> areScriptHooksValid env (the (map_of (idm importData) k))) \<and>
      (\<forall>k d e.
         Put k d (Rejected e) \<in> set (fst (snd (importConfigEntities env importData options w))) \<longrightarrow>
           k = entityId \<and>
           httpStatus (FrodoError (''Error updating config entity '' @ k) [e]) = Some 403 \<and>
           httpCode (FrodoError (''Error updating config entity '' @ k) [e]) =
             Some ''ERR_BAD_REQUEST'') \<longrightarrow>
      fst (importConfigEntities env importData options w) =
        Resolved (upserted (fst (snd (importConfigEntities env importData options w)))) \<and>
      (\<forall>k \<in> set (Object_keys (idm importData)).
         \<exists>p. Put k (the (map_of (idm importData) k)) p
               \<in> set (fst (snd (importConfigEntities env importData options w)))) \<and>
      (\<forall>k \<in> set (Object_keys (idm importData)). k \<noteq> entityId \<longrightarrow>
         (\<exists>r. Put k (the (map_of (idm importData) k)) (Resolved r)
                 \<in> set (fst (snd (importConfigEntities env importData options w))) \<and>
               r \<in> set (upserted (fst (snd (importConfigEntities env importData options w)))))))"
proof -
  have conflict: "protected_conflict env entityId e"
    if "httpStatus (FrodoError (''Error updating config entity '' @ entityId) [e]) = Some 403"
      and "httpCode (FrodoError (''Error updating config entity '' @ entityId) [e]) =
        Some ''ERR_BAD_REQUEST''" for e
    using cloud prot that by (simp add: protected_conflict_def update_error_def)
  have round: "importConfigEntities_loop env importData options (entityId # rest) b =
      importConfigEntities_loop env importData options rest
        (b\<lparr>trace := trace b @
             [DebugMessage (''IdmConfigOps.importConfigEntities: '' @ entityId),
              Put entityId (the (map_of (idm importData) entityId)) (Rejected e)],
           world := w'\<rparr>)"
    if "httpStatus (FrodoError (''Error updating config entity '' @ entityId) [e]) = Some 403 \<and>
        httpCode (FrodoError (''Error updating config entity '' @ entityId) [e]) =
          Some ''ERR_BAD_REQUEST'' \<and>
        \<not> (validate options \<and>
             \<not> areScriptHooksValid env (the (map_of (idm importData) entityId))) \<and>
        api_putConfigEntity env entityId (the (map_of (idm importData) entityId)) False
          (world b) = (Rejected e, w')" for e b rest w'
  proof -
    from that conflict have c: "protected_conflict env entityId e" by blast
    from that have v: "\<not> (validate options \<and>
        \<not> areScriptHooksValid env (the (map_of (idm importData) entityId)))" by blast
    from that have p: "api_putConfigEntity env entityId
        (the (map_of (idm importData) entityId)) False (world b) = (Rejected e, w')" by blast
    show ?thesis
      by (simp only: importConfigEntities_loop.simps
            importConfigEntities_body_suppresses [OF c v p])
  qed
  have never: "FrodoError (''Error updating config entity '' @ entityId) [e] \<notin> set errs"
    if "httpStatus (FrodoError (''Error updating config entity '' @ entityId) [e]) = Some 403 \<and>
        httpCode (FrodoError (''Error updating config entity '' @ entityId) [e]) =
          Some ''ERR_BAD_REQUEST'' \<and>
        fst (importConfigEntities env importData options w) =
          Rejected (FrodoError ''Error importing config entities'' errs)" for e errs
  proof -
    from that conflict have c: "protected_conflict env entityId e" by blast
    from that have "errs = concat (map recorded
        (fst (spec_importAll env importData options (Object_keys (idm importData)) w)))"
      by (simp add: importConfigEntities_outcome split: if_splits)
    with protected_failure_not_recorded [OF c, of importData options
      "Object_keys (idm importData)" w]
    show ?thesis by (simp add: update_error_def)
  qed
  have every: "\<forall>k \<in> set (Object_keys (idm importData)).
        DebugMessage (''IdmConfigOps.importConfigEntities: '' @ k)
          \<in> set (fst (snd (importConfigEntities env importData options w))) \<and>
        (validate options \<and> \<not> areScriptHooksValid env (the (map_of (idm importData) k)) \<or>
         (\<exists>p. Put k (the (map_of (idm importData) k)) p
                \<in> set (fst (snd (importConfigEntities env importData options w)))))"
    using importConfigEntities_every_id [where env = env and importData = importData
      and options = options and w = w] by blast
  have sole: "fst (importConfigEntities env importData options w) =
        Resolved (upserted (fst (snd (importConfigEntities env importData options w)))) \<and>
      (\<forall>k \<in> set (Object_keys (idm importData)).
         \<exists>p. Put k (the (map_of (idm importData) k)) p
               \<in> set (fst (snd (importConfigEntities env importData options w)))) \<and>
      (\<forall>k \<in> set (Object_keys (idm importData)). k \<noteq> entityId \<longrightarrow>
         (\<exists>r. Put k (the (map_of (idm importData) k)) (Resolved r)
                 \<in> set (fst (snd (importConfigEntities env importData options w))) \<and>
               r \<in> set (upserted (fst (snd (importConfigEntities env importData options w))))))"
    if "(\<forall>k \<in> set (Object_keys (idm importData)).
         validate options \<longrightarrow> areScriptHooksValid env (the (map_of (idm importData) k))) \<and>
      (\<forall>k d e.
         Put k d (Rejected e) \<in> set (fst (snd (importConfigEntities env importData options w))) \<longrightarrow>
           k = entityId \<and>
           httpStatus (FrodoError (''Error updating config entity '' @ k) [e]) = Some 403 \<and>
           httpCode (FrodoError (''Error updating config entity '' @ k) [e]) =
             Some ''ERR_BAD_REQUEST'')"
    using that by (intro importConfigEntities_sole_failures [OF cloud prot]) blast+
  from round never every sole show ?thesis by blast
qed

theorem importConfigEntities_protected_suppressed_witness:
  "fst (importConfigEntities (store_env protected_faults ''cloud'' no_hooks example_metadata)
          import_bundle \<lparr>validate = True\<rparr> example_store) =
     Resolved [entity ''managed'', entity ''sync''] \<and>
   Put ''emailTemplate/frOnboarding'' (entity ''emailTemplate/frOnboarding'') (Rejected forbidden)
     \<in> set (fst (snd (importConfigEntities
           (store_env protected_faults ''cloud'' no_hooks example_metadata)
           import_bundle \<lparr>validate = True\<rparr> example_store))) \<and>
   fst (importConfigEntities (store_env import_faults ''cloud'' no_hooks example_metadata)
          import_bundle \<lparr>validate = True\<rparr> example_store) =
     Rejected (FrodoError ''Error importing config entities''
       [FrodoError ''Error updating config entity managed'' [server_error]]) \<and>
   Put ''sync'' (entity ''sync'') (Resolved (entity ''sync''))
     \<in> set (fst (snd (importConfigEntities
           (store_env import_faults ''cloud'' no_hooks example_metadata)
           import_bundle \<lparr>validate = True\<rparr> example_store)))"
proof -
  let ?env = "store_env protected_faults ''cloud'' no_hooks example_metadata"
  let ?run = "importConfigEntities ?env import_bundle \<lparr>validate = True\<rparr> example_store"
  let ?env2 = "store_env import_faults ''cloud'' no_hooks example_metadata"
  let ?run2 = "importConfigEntities ?env2 import_bundle \<lparr>validate = True\<rparr> example_store"
  have run: "?run =
    (Resolved [entity ''managed'', entity ''sync''],
     [DebugMessage ''IdmConfigOps.importConfigEntities: start'',
      DebugMessage ''IdmConfigOps.importConfigEntities: managed'',
      Put ''managed'' (entity ''managed'') (Resolved (entity ''managed'')),
      DebugMessage ''IdmConfigOps.importConfigEntities: emailTemplate/frOnboarding'',
      Put ''emailTemplate/frOnboarding'' (entity ''emailTemplate/frOnboarding'')
        (Rejected forbidden),
      DebugMessage ''IdmConfigOps.importConfigEntities: sync'',
      Put ''sync'' (entity ''sync'') (Resolved (entity ''sync'')),
      DebugMessage ''IdmConfigOps.importConfigEntities: end''],
     [(''managed'', entity ''managed''), (''script'', entity ''script''),
      (''sync'', entity ''sync'')])"
    by (simp add: importConfigEntities_spec import_bundle_def bundle_of_def Object_keys_def
          store_env_def protected_faults_def no_faults_def spec_importOne_def
          protected_conflict_def update_error_def CLOUD_DEPLOYMENT_TYPE_KEY_def
          AIC_PROTECTED_ENTITIES_def forbidden_def no_hooks_def entity_def example_store_def
          events_of_def)
  have run2: "?run2 =
    (Rejected (FrodoError ''Error importing config entities''
       [FrodoError ''Error updating config entity managed'' [server_error]]),
     [DebugMessage ''IdmConfigOps.importConfigEntities: start'',
      DebugMessage ''IdmConfigOps.importConfigEntities: managed'',
      Put ''managed'' (entity ''managed'') (Rejected server_error),
      DebugMessage ''IdmConfigOps.importConfigEntities: emailTemplate/frOnboarding'',
      Put ''emailTemplate/frOnboarding'' (entity ''emailTemplate/frOnboarding'')
        (Rejected forbidden),
      DebugMessage ''IdmConfigOps.importConfigEntities: sync'',
      Put ''sync'' (entity ''sync'') (Resolved (entity ''sync''))],
     [(''managed'', entity ''managed''), (''script'', entity ''script''),
      (''sync'', entity ''sync'')])"
    by (simp add: importConfigEntities_spec import_bundle_def bundle_of_def Object_keys_def
          store_env_def import_faults_def no_faults_def spec_importOne_def
          protected_conflict_def update_error_def CLOUD_DEPLOYMENT_TYPE_KEY_def
          AIC_PROTECTED_ENTITIES_def forbidden_def server_error_def no_hooks_def entity_def
          example_store_def events_of_def)
  have cloud: "getDeploymentType ?env = CLOUD_DEPLOYMENT_TYPE_KEY"
    by (simp add: store_env_def CLOUD_DEPLOYMENT_TYPE_KEY_def)
  have cloud2: "getDeploymentType ?env2 = CLOUD_DEPLOYMENT_TYPE_KEY"
    by (simp add: store_env_def CLOUD_DEPLOYMENT_TYPE_KEY_def)
  have prot: "''emailTemplate/frOnboarding'' \<in> set AIC_PROTECTED_ENTITIES"
    by (simp add: AIC_PROTECTED_ENTITIES_def)
  have valid: "\<forall>k \<in> set (Object_keys (idm import_bundle)).
      validate \<lparr>validate = True\<rparr> \<longrightarrow>
        areScriptHooksValid ?env (the (map_of (idm import_bundle) k))"
    by (simp add: import_bundle_def bundle_of_def Object_keys_def store_env_def no_hooks_def
          entity_def)
  have only: "\<forall>k d e. Put k d (Rejected e) \<in> set (fst (snd ?run)) \<longrightarrow>
      k = ''emailTemplate/frOnboarding'' \<and>
      httpStatus (FrodoError (''Error updating config entity '' @ k) [e]) = Some 403 \<and>
      httpCode (FrodoError (''Error updating config entity '' @ k) [e]) =
        Some ''ERR_BAD_REQUEST''"
    by (auto simp: run forbidden_def)
  from importConfigEntities_protected_suppressed
    [OF cloud prot, of "\<lparr>validate = True\<rparr>" import_bundle example_store] valid only
  have "fst ?run = Resolved (upserted (fst (snd ?run)))" by blast
  moreover from importConfigEntities_protected_suppressed
    [OF cloud2 prot, of "\<lparr>validate = True\<rparr>" import_bundle example_store]
  have "FrodoError (''Error updating config entity '' @ ''emailTemplate/frOnboarding'')
      [forbidden] \<notin> set [FrodoError ''Error updating config entity managed'' [server_error]]"
    by (simp add: forbidden_def server_error_def)
  ultimately show ?thesis by (simp add: run run2)
qed

text \<open>
  C8. With \<^verbatim>\<open>validate: true\<close>, an id of the bundle whose script hooks are not valid is
  never sent to the store (no \<^verbatim>\<open>PUT\<close> for it among the requests), and its validation
  failure is one of the errors wrapped by the \<^verbatim>\<open>FrodoError\<close> the call rejects with.
\<close>

theorem importConfigEntities_validation_failure:
  assumes "validate options"
    and "entityId \<in> set (Object_keys (idm importData))"
    and "\<not> areScriptHooksValid env (the (map_of (idm importData) entityId))"
  shows "(\<forall>entityData p.
            Put entityId entityData p
              \<notin> set (fst (snd (importConfigEntities env importData options w)))) \<and>
         (\<exists>errs. fst (importConfigEntities env importData options w) =
                   Rejected (FrodoError ''Error importing config entities'' errs) \<and>
                 invalid_script_hook entityId \<in> set errs)"
proof -
  let ?as = "fst (spec_importAll env importData options (Object_keys (idm importData)) w)"
  have inv: "a = Invalid" if "(entityId, a) \<in> set ?as" for a
  proof -
    from spec_importAll_attempt [OF that]
    obtain w0 where "a = fst (spec_importOne env importData options entityId w0)" by auto
    with assms show ?thesis by (simp add: spec_importOne_Invalid)
  qed
  have no_put: "Put entityId entityData p
      \<notin> set (fst (snd (importConfigEntities env importData options w)))" for entityData p
  proof
    assume "Put entityId entityData p
      \<in> set (fst (snd (importConfigEntities env importData options w)))"
    then have "Put entityId entityData p \<in> set (concat (map (events_of importData) ?as))"
      by (simp add: importConfigEntities_spec Let_def split_beta split: if_splits)
    then have "\<exists>a. (entityId, a) \<in> set ?as \<and>
        Put entityId entityData p \<in> set (requests_of importData (entityId, a))"
      by (simp only: Put_in_events)
    then obtain a where "(entityId, a) \<in> set ?as"
        and "Put entityId entityData p \<in> set (requests_of importData (entityId, a))"
      by blast
    with inv [of a] show False by simp
  qed
  obtain a where a: "(entityId, a) \<in> set ?as"
    using attempts_cover_keys [OF assms(2), where env = env and importData = importData
      and options = options and w = w] by blast
  with inv [of a] have "(entityId, Invalid) \<in> set ?as" by simp
  then have rec: "invalid_script_hook entityId \<in> set (concat (map recorded ?as))"
    by force
  have "concat (map recorded ?as) \<noteq> []"
  proof
    assume "concat (map recorded ?as) = []"
    with rec show False by simp
  qed
  then have "fst (importConfigEntities env importData options w) =
      Rejected (FrodoError ''Error importing config entities''
        (concat (map recorded ?as)))"
    by (simp add: importConfigEntities_spec Let_def split_beta)
  with rec no_put show ?thesis by blast
qed

theorem importConfigEntities_validation_failure_witness:
  "(\<forall>entityData p.
      Put ''endpoint/hello'' entityData p
        \<notin> set (fst (snd (importConfigEntities
              (store_env no_faults ''cloud'' no_hooks example_metadata)
              (bundle_of [(''endpoint/hello'', hooked_entity ''endpoint/hello''),
                          (''sync'', entity ''sync'')])
              \<lparr>validate = True\<rparr> example_store)))) \<and>
   fst (importConfigEntities
          (store_env no_faults ''cloud'' no_hooks example_metadata)
          (bundle_of [(''endpoint/hello'', hooked_entity ''endpoint/hello''),
                      (''sync'', entity ''sync'')])
          \<lparr>validate = True\<rparr> example_store) =
     Rejected (FrodoError ''Error importing config entities''
       [invalid_script_hook ''endpoint/hello''])"
proof -
  let ?env = "store_env no_faults ''cloud'' no_hooks example_metadata"
  let ?d = "bundle_of [(''endpoint/hello'', hooked_entity ''endpoint/hello''),
                       (''sync'', entity ''sync'')]"
  have v: "validate \<lparr>validate = True\<rparr>" by simp
  have k: "''endpoint/hello'' \<in> set (Object_keys (idm ?d))"
    by (simp add: bundle_of_def Object_keys_def)
  have h: "\<not> areScriptHooksValid ?env (the (map_of (idm ?d) ''endpoint/hello''))"
    by (simp add: bundle_of_def store_env_def no_hooks_def hooked_entity_def)
  have r: "fst (importConfigEntities ?env ?d \<lparr>validate = True\<rparr> example_store) =
     Rejected (FrodoError ''Error importing config entities''
       [invalid_script_hook ''endpoint/hello''])"
    by (simp add: importConfigEntities_spec bundle_of_def Object_keys_def store_env_def
          no_faults_def spec_importOne_def no_hooks_def hooked_entity_def entity_def)
  from importConfigEntities_validation_failure [OF v k h, of example_store] r
  show ?thesis by blast
qed

text \<open>
  C9. Against the store above, whose \<^verbatim>\<open>PUT\<close> creates or replaces the document of an id
  and whose refusals depend on the request only, importing the same bundle with the same
  options a second time leaves the store exactly as the first import left it, and the
  second call settles as the first did: no failure appears that the first pass did not
  have.
\<close>

theorem importConfigEntities_idempotent:
  "snd (snd (importConfigEntities (store_env f deployment valid metadata) importData options
      (snd (snd (importConfigEntities (store_env f deployment valid metadata)
                   importData options w))))) =
   snd (snd (importConfigEntities (store_env f deployment valid metadata) importData options w)) \<and>
   fst (importConfigEntities (store_env f deployment valid metadata) importData options
      (snd (snd (importConfigEntities (store_env f deployment valid metadata)
                   importData options w)))) =
   fst (importConfigEntities (store_env f deployment valid metadata) importData options w)"
proof -
  let ?env = "store_env f deployment valid metadata"
  let ?keys = "Object_keys (idm importData)"
  let ?w1 = "snd (spec_importAll ?env importData options ?keys w)"
  have written: "map_of ?w1 k = Some v"
    if "k \<in> set ?keys" and "store_writes f valid importData options k = Some v" for k v
    using that by (simp add: store_importAll_lookup)
  have "snd (spec_importAll ?env importData options ?keys ?w1) = ?w1"
    by (rule store_importAll_fixpoint) (rule written)
  then have world: "snd (snd (importConfigEntities ?env importData options
      (snd (snd (importConfigEntities ?env importData options w))))) =
      snd (snd (importConfigEntities ?env importData options w))"
    by (simp only: importConfigEntities_world)
  have "fst (spec_importAll ?env importData options ?keys ?w1) =
      fst (spec_importAll ?env importData options ?keys w)"
    by (rule store_importAll_attempts)
  then have "fst (importConfigEntities ?env importData options ?w1) =
      fst (importConfigEntities ?env importData options w)"
    by (simp only: importConfigEntities_outcome)
  then have outcome: "fst (importConfigEntities ?env importData options
      (snd (snd (importConfigEntities ?env importData options w)))) =
      fst (importConfigEntities ?env importData options w)"
    by (simp only: importConfigEntities_world)
  from world outcome show ?thesis by (rule conjI)
qed

theorem importConfigEntities_idempotent_witness:
  "snd (snd (importConfigEntities (store_env import_faults ''cloud'' no_hooks example_metadata)
      import_bundle \<lparr>validate = True\<rparr>
      (snd (snd (importConfigEntities (store_env import_faults ''cloud'' no_hooks example_metadata)
                   import_bundle \<lparr>validate = True\<rparr> example_store))))) =
     [(''managed'', entity ''managed''), (''script'', entity ''script''),
      (''sync'', entity ''sync'')] \<and>
   snd (snd (importConfigEntities (store_env import_faults ''cloud'' no_hooks example_metadata)
      import_bundle \<lparr>validate = True\<rparr> example_store)) =
     [(''managed'', entity ''managed''), (''script'', entity ''script''),
      (''sync'', entity ''sync'')]"
  using importConfigEntities_idempotent
    [of import_faults "''cloud''" no_hooks example_metadata import_bundle
        "\<lparr>validate = True\<rparr>" example_store]
  by (simp add: importConfigEntities_world import_bundle_def bundle_of_def Object_keys_def
        store_env_def import_faults_def no_faults_def spec_importOne_def protected_conflict_def
        update_error_def CLOUD_DEPLOYMENT_TYPE_KEY_def AIC_PROTECTED_ENTITIES_def forbidden_def
        server_error_def no_hooks_def entity_def example_store_def)

text \<open>
  C10. The promise \<^verbatim>\<open>deleteConfigEntity\<close> returns is the promise of the API's delete,
  as it is. When the store's delete rejects with an error, the operation rejects with
  that very error and not with the \<^verbatim>\<open>FrodoError\<close> ``Error deleting config entity ...''
  that the \<^verbatim>\<open>catch\<close> clause would throw: the clause is never entered, because the
  promise is returned without being awaited.
\<close>

theorem deleteConfigEntity_rejects_unwrapped:
  "fst (deleteConfigEntity env entityId w) = fst (api_deleteConfigEntity env entityId w) \<and>
   (\<forall>e. fst (api_deleteConfigEntity env entityId w) = Rejected e \<longrightarrow>
      fst (deleteConfigEntity env entityId w) = Rejected e \<and>
      fst (deleteConfigEntity env entityId w) \<noteq>
        Rejected (FrodoError (''Error deleting config entity '' @ entityId) [e]))"
proof -
  have same: "fst (deleteConfigEntity env entityId w) = fst (api_deleteConfigEntity env entityId w)"
    by (simp add: deleteConfigEntity_def split_beta)
  have "fst (deleteConfigEntity env entityId w) \<noteq>
      Rejected (FrodoError (''Error deleting config entity '' @ entityId) [e])"
    if "fst (api_deleteConfigEntity env entityId w) = Rejected e" for e
    using that error_not_its_wrapper [of e] by (simp add: same)
  with same show ?thesis by simp
qed

theorem deleteConfigEntity_rejects_unwrapped_witness:
  "fst (deleteConfigEntity (store_env delete_faults ''cloud'' no_hooks example_metadata)
          ''managed'' example_store) = Rejected server_error"
  using deleteConfigEntity_rejects_unwrapped
    [of "store_env delete_faults ''cloud'' no_hooks example_metadata" "''managed''" example_store]
  by (simp add: store_env_def delete_faults_def no_faults_def)

end
